theory Spec2Isabelle
  imports Complex_Main "HOL-Library.Multiset"
begin

section \<open>Video speed controller: controller lifecycle and media discovery\<close>

text \<open>
  A shallow embedding of \<^verbatim>\<open>src/core/video-controller.js\<close> (class \<^verbatim>\<open>VideoController\<close>)
  and of the media element observer (class \<^verbatim>\<open>MediaElementObserver\<close>).

  JavaScript objects are identified by natural numbers. The part of the page a
  controller touches is an explicit store: every DOM property the code reads or
  writes is a field of the state, indexed by the object's identity. Numbers are
  rationals (the code compares them and formats them, it does no arithmetic on
  them); a missing value (\<^verbatim>\<open>undefined\<close>) is \<open>None\<close>. An exception is a value:
  every function that can throw returns an outcome together with the state at
  the moment it returned or threw, since the writes made before a throw stay.
\<close>

subsection \<open>Values, errors, events, log lines\<close>

type_synonym node = nat

datatype error = TypeError | NotFoundError | HierarchyRequestError | SyntaxError | SecurityError

datatype 'a outcome = Return 'a | Throw error

text \<open>The lines written through \<^verbatim>\<open>logger\<close> by the controller, one constructor for
  each call site, with the values its template prints.\<close>

datatype logmsg =
    InfoInitialized
  | DebugUsingStored rat
  | DebugUsingLastSpeed rat
  | DebugRememberDisabled
  | DebugSettingInitial rat
  | DebugForceDispatch
  | DebugControlsBegin
  | DebugSpeedVariable string
  | DebugControlsEnd
  | DebugInserted string
  | InfoOverwriting
  | DebugResetToFast
  | InfoExplicitlySetting rat
  | DebugMutation
  | DebugRemoving
  | DebugRemoved

text \<open>The \<^verbatim>\<open>CustomEvent\<close> built in \<^verbatim>\<open>initializeSpeed\<close>.\<close>

record customEvent =
  evType :: string
  bubbles :: bool
  composed :: bool
  origin :: string
  speed :: string

text \<open>What \<^verbatim>\<open>siteHandlerManager.getControllerPosition\<close> returns.\<close>

record positioning =
  insertionPoint :: "node option"
  insertionMethod :: string
  targetParent :: "node option"

text \<open>One record of a \<^verbatim>\<open>MutationObserver\<close> callback.\<close>

record mutation =
  mtype :: string
  attributeName :: string
  mtarget :: node

text \<open>
  A \<^verbatim>\<open>VideoController\<close> object once its constructor has run to the end. The
  constructor either sets every field or throws, and a controller is reachable
  only through \<^verbatim>\<open>video.vsc\<close>, which is set last; so the fields are not optional.
  \<^verbatim>\<open>div\<close> is a fresh node and identifies the controller. The handlers and the
  observer are the identities of the function and observer objects.
  (\<^verbatim>\<open>config\<close>, \<^verbatim>\<open>actionHandler\<close> and \<^verbatim>\<open>controlsManager\<close> are the shared
  collaborators: their state is part of the state below.)
\<close>

record controller =
  video :: node
  parent :: "node option"
  divE :: node
  handlePlay :: nat
  handleSeek :: nat
  targetObserver :: nat

subsection \<open>The state\<close>

record settings =
  rememberSpeed :: bool
  forceLastSavedSpeed :: bool
  startHidden :: bool
  speeds :: "string \<rightharpoonup> rat"
  lastSpeed :: "rat option"

text \<open>
  \<open>speeds\<close> gives, for a key, the \<^verbatim>\<open>speed\<close> field of the entry stored under it
  (\<open>None\<close> when the entry or the field is absent: \<^verbatim>\<open>speeds[k]?.speed\<close>).
\<close>

record state =
  nextId :: nat
  nodeType :: "node \<Rightarrow> nat"
  parentNode :: "node \<rightharpoonup> node"
  childNodes :: "node \<Rightarrow> node list"
  classList :: "node \<Rightarrow> string list"
  shadowSpeed :: "node \<rightharpoonup> string"
  currentSrc :: "node \<Rightarrow> string"
  src :: "node \<Rightarrow> string"
  playbackRate :: "node \<Rightarrow> rat"
  vsc :: "node \<rightharpoonup> controller"
  listeners :: "node \<Rightarrow> (string \<times> nat) list"
  observing :: "(nat \<times> node) list"
  dispatched :: "(node \<times> customEvent) list"
  settings :: settings
  keyBindings :: "string \<rightharpoonup> rat"
  mediaElements :: "node list"
  setSpeedCalls :: "(node \<times> rat) list"
  logged :: "logmsg list"

text \<open>
  \<open>nextId\<close> is the supply of fresh object identities. \<open>shadowSpeed\<close> is the speed
  text handed to \<^verbatim>\<open>ShadowDOMManager.createShadowDOM\<close> for a wrapper.
  \<open>listeners\<close> are the (event type, handler) pairs registered on an element,
  \<open>observing\<close> the (observer, target) pairs of the connected mutation observers,
  \<open>dispatched\<close> the events sent with \<^verbatim>\<open>dispatchEvent\<close>, \<open>setSpeedCalls\<close> the calls of
  \<^verbatim>\<open>actionHandler.setSpeed\<close>, in order.
\<close>

text \<open>The collaborators whose code is not part of the controller.\<close>

record env =
  getBaseURL :: "string \<Rightarrow> string"
  getControllerPosition :: "node option \<Rightarrow> node \<Rightarrow> positioning"

subsection \<open>JavaScript and DOM primitives\<close>

text \<open>\<^verbatim>\<open>x || d\<close> on a number that may be undefined: zero and undefined are falsy.\<close>

definition orElse :: "rat option \<Rightarrow> rat \<Rightarrow> rat" where
  "orElse x d = (case x of None \<Rightarrow> d | Some v \<Rightarrow> if v = 0 then d else v)"

fun digitsOf :: "nat \<Rightarrow> string" where
  "digitsOf n = (if n < 10 then [''0123456789'' ! n]
                 else digitsOf (n div 10) @ [''0123456789'' ! (n mod 10)])"

declare digitsOf.simps [simp del]

text \<open>
  \<^verbatim>\<open>Number.prototype.toFixed(1)\<close> on the exact value of the number, for magnitudes
  below \<open>10^21\<close>: the sign, then the integer \<open>n\<close> nearest to ten times the
  magnitude (the larger one on a tie), written with one digit after the point.
\<close>

definition toFixed1 :: "rat \<Rightarrow> string" where
  "toFixed1 x =
     (let n = nat \<lfloor>\<bar>x\<bar> * 10 + 1 / 2\<rfloor>
      in (if x < 0 then ''-'' else '''') @ digitsOf (n div 10) @ ''.'' @ digitsOf (n mod 10))"

definition logLine :: "logmsg \<Rightarrow> state \<Rightarrow> state" where
  "logLine m s = s\<lparr>logged := logged s @ [m]\<rparr>"

definition parentElement :: "state \<Rightarrow> node \<Rightarrow> node option" where
  "parentElement s n =
     (case parentNode s n of
        None \<Rightarrow> None
      | Some p \<Rightarrow> if nodeType s p = 1 then Some p else None)"

definition firstChild :: "state \<Rightarrow> node \<Rightarrow> node option" where
  "firstChild s n = (case childNodes s n of [] \<Rightarrow> None | c # _ \<Rightarrow> Some c)"

definition nextSibling :: "state \<Rightarrow> node \<Rightarrow> node option" where
  "nextSibling s n =
     (case parentNode s n of
        None \<Rightarrow> None
      | Some p \<Rightarrow>
          (case dropWhile (\<lambda>c. c \<noteq> n) (childNodes s p) of
             _ # c # _ \<Rightarrow> Some c
           | _ \<Rightarrow> None))"

text \<open>\<^verbatim>\<open>document.createElement\<close> and \<^verbatim>\<open>createDocumentFragment\<close>: a fresh,
  parentless, childless node of the given type.\<close>

definition createNode :: "nat \<Rightarrow> state \<Rightarrow> node \<times> state" where
  "createNode ty s =
     (let n = nextId s
      in (n, s\<lparr>nextId := Suc n,
               nodeType := (nodeType s)(n := ty),
               parentNode := (parentNode s)(n := None),
               childNodes := (childNodes s)(n := []),
               classList := (classList s)(n := [])\<rparr>))"

text \<open>\<^verbatim>\<open>classList.add\<close> and \<^verbatim>\<open>classList.remove\<close>: the list is a set of tokens.\<close>

definition classListAdd :: "node \<Rightarrow> string \<Rightarrow> state \<Rightarrow> state" where
  "classListAdd n c s =
     (if c \<in> set (classList s n) then s
      else s\<lparr>classList := (classList s)(n := classList s n @ [c])\<rparr>)"

definition classListRemove :: "node \<Rightarrow> string \<Rightarrow> state \<Rightarrow> state" where
  "classListRemove n c s = s\<lparr>classList := (classList s)(n := removeAll c (classList s n))\<rparr>"

text \<open>\<^verbatim>\<open>fragment.appendChild(wrapper)\<close> for a parentless wrapper.\<close>

definition appendChild :: "node \<Rightarrow> node \<Rightarrow> state \<Rightarrow> state" where
  "appendChild p c s =
     s\<lparr>childNodes := (childNodes s)(p := childNodes s p @ [c]),
       parentNode := (parentNode s)(c \<mapsto> p)\<rparr>"

definition insertAt :: "node list \<Rightarrow> node option \<Rightarrow> node list \<Rightarrow> node list" where
  "insertAt kids ref xs =
     (case ref of
        None \<Rightarrow> xs @ kids
      | Some r \<Rightarrow> takeWhile (\<lambda>c. c \<noteq> r) xs @ kids @ dropWhile (\<lambda>c. c \<noteq> r) xs)"

text \<open>
  \<^verbatim>\<open>p.insertBefore(fragment, ref)\<close>, the new node being a document fragment whose
  children are childless. The DOM refuses a parent that cannot have children or
  lies inside the fragment, a reference node that is not a child of the parent,
  and a second element under a document; otherwise the children of the fragment
  move in front of the reference node (to the end when it is null). Document
  type nodes are not part of the store.
\<close>

definition insertBefore :: "node \<Rightarrow> node \<Rightarrow> node option \<Rightarrow> state \<Rightarrow> unit outcome \<times> state" where
  "insertBefore p frag ref s =
     (let kids = childNodes s frag
      in if nodeType s p \<notin> {1, 9, 11} \<or> p = frag \<or> p \<in> set kids
         then (Throw HierarchyRequestError, s)
         else if (case ref of None \<Rightarrow> False | Some r \<Rightarrow> r \<notin> set (childNodes s p))
         then (Throw NotFoundError, s)
         else if nodeType s p = 9 \<and> list_ex (\<lambda>k. nodeType s k = 1) kids
                 \<and> list_ex (\<lambda>c. nodeType s c = 1) (childNodes s p)
         then (Throw HierarchyRequestError, s)
         else (Return (),
               s\<lparr>childNodes := (childNodes s)(frag := [], p := insertAt kids ref (childNodes s p)),
                 parentNode := (\<lambda>n. if n \<in> set kids then Some p else parentNode s n)\<rparr>))"

text \<open>\<^verbatim>\<open>node.remove()\<close>.\<close>

definition removeNode :: "node \<Rightarrow> state \<Rightarrow> state" where
  "removeNode n s =
     (case parentNode s n of
        None \<Rightarrow> s
      | Some p \<Rightarrow> s\<lparr>childNodes := (childNodes s)(p := removeAll n (childNodes s p)),
                   parentNode := (parentNode s)(n := None)\<rparr>)"

text \<open>\<^verbatim>\<open>addEventListener\<close> ignores a pair that is registered already.\<close>

definition addEventListener :: "node \<Rightarrow> string \<Rightarrow> nat \<Rightarrow> state \<Rightarrow> state" where
  "addEventListener n ty h s =
     (if (ty, h) \<in> set (listeners s n) then s
      else s\<lparr>listeners := (listeners s)(n := listeners s n @ [(ty, h)])\<rparr>)"

definition removeEventListener :: "node \<Rightarrow> string \<Rightarrow> nat \<Rightarrow> state \<Rightarrow> state" where
  "removeEventListener n ty h s =
     s\<lparr>listeners := (listeners s)(n := removeAll (ty, h) (listeners s n))\<rparr>"

definition dispatchEvent :: "node \<Rightarrow> customEvent \<Rightarrow> state \<Rightarrow> state" where
  "dispatchEvent n ev s = s\<lparr>dispatched := dispatched s @ [(n, ev)]\<rparr>"

definition observe :: "nat \<Rightarrow> node \<Rightarrow> state \<Rightarrow> state" where
  "observe ob n s = s\<lparr>observing := observing s @ [(ob, n)]\<rparr>"

definition disconnect :: "nat \<Rightarrow> state \<Rightarrow> state" where
  "disconnect ob s = s\<lparr>observing := filter (\<lambda>p. fst p \<noteq> ob) (observing s)\<rparr>"

subsection \<open>The configuration object\<close>

text \<open>Modelled from the spec: the tracked-elements registry of the external
  Config ("tracked-element registry add/remove"); only its callers are in the
  sources. An element is in the registry or it is not.\<close>

definition addMediaElement :: "node \<Rightarrow> state \<Rightarrow> state" where
  "addMediaElement n s =
     (if n \<in> set (mediaElements s) then s else s\<lparr>mediaElements := mediaElements s @ [n]\<rparr>)"

definition removeMediaElement :: "node \<Rightarrow> state \<Rightarrow> state" where
  "removeMediaElement n s = s\<lparr>mediaElements := removeAll n (mediaElements s)\<rparr>"

text \<open>Modelled from the spec: the key bindings of the external Config
  ("key-binding get/set"), a value for each action name.\<close>

definition getKeyBinding :: "string \<Rightarrow> state \<Rightarrow> rat option" where
  "getKeyBinding a s = keyBindings s a"

definition setKeyBinding :: "string \<Rightarrow> rat option \<Rightarrow> state \<Rightarrow> state" where
  "setKeyBinding a v s = s\<lparr>keyBindings := (keyBindings s)(a := v)\<rparr>"

subsection \<open>VideoController\<close>

text \<open>
  \<^verbatim>\<open>initializeSpeed()\<close> in two parts. \<open>resolveSpeed\<close> is the function up to the
  line that logs the initial rate: it returns the value of the local
  \<^verbatim>\<open>targetSpeed\<close> there, and the state. \<^verbatim>\<open>storedVideoSpeed\<close> is
  \<^verbatim>\<open>speeds[getBaseURL(videoSrc)]?.speed || 1.0\<close>; a number is truthy when it is
  not zero.
\<close>

definition storedVideoSpeed :: "env \<Rightarrow> node \<Rightarrow> state \<Rightarrow> rat" where
  "storedVideoSpeed E v s =
     (let videoSrc = (if currentSrc s v \<noteq> [] then currentSrc s v else src s v)
      in orElse (speeds (settings s) (getBaseURL E videoSrc)) 1)"

definition resolveSpeed :: "env \<Rightarrow> node \<Rightarrow> state \<Rightarrow> rat \<times> state" where
  "resolveSpeed E v s =
     (let stored = storedVideoSpeed E v s;
          (target, s1) =
            (if rememberSpeed (settings s) then
               (let (t, s') =
                      (if stored \<noteq> 0 then (stored, logLine (DebugUsingStored stored) s)
                       else (case lastSpeed (settings s) of
                               None \<Rightarrow> (1, s)
                             | Some l \<Rightarrow> if l \<noteq> 0 then (l, logLine (DebugUsingLastSpeed l) s)
                                         else (1, s)))
                in (t, setKeyBinding ''reset'' (Some t) s'))
             else
               (let s' = logLine DebugRememberDisabled s
                in (1, setKeyBinding ''reset'' (getKeyBinding ''fast'' s') s')))
      in (target, logLine (DebugSettingInitial target) s1))"

definition initializeSpeed :: "env \<Rightarrow> node \<Rightarrow> state \<Rightarrow> state" where
  "initializeSpeed E v s =
     (let (target, s2) = resolveSpeed E v s
      in if forceLastSavedSpeed (settings s2) \<and> target \<noteq> 1 then
           dispatchEvent v
             \<lparr>evType = ''ratechange'', bubbles = True, composed = True,
              origin = ''videoSpeed'', speed = toFixed1 target\<rparr>
             (logLine DebugForceDispatch s2)
         else s2\<lparr>playbackRate := (playbackRate s2)(v := target)\<rparr>)"

text \<open>\<^verbatim>\<open>insertIntoDOM(document, wrapper)\<close>; \<open>par\<close> is \<^verbatim>\<open>this.parent\<close>. Reading a
  property of \<^verbatim>\<open>null\<close> throws a \<^verbatim>\<open>TypeError\<close>.\<close>

definition insertIntoDOM :: "env \<Rightarrow> node option \<Rightarrow> node \<Rightarrow> node \<Rightarrow> state \<Rightarrow> unit outcome \<times> state" where
  "insertIntoDOM E par v wrapper s =
     (let (fragment, s1) = createNode 11 s;
          s2 = appendChild fragment wrapper s1;
          pos = getControllerPosition E par v;
          (r, s3) =
            (if insertionMethod pos = ''beforeParent'' then
               (case insertionPoint pos of
                  None \<Rightarrow> (Throw TypeError, s2)
                | Some ip \<Rightarrow>
                    (case parentElement s2 ip of
                       None \<Rightarrow> (Throw TypeError, s2)
                     | Some pe \<Rightarrow> insertBefore pe fragment (Some ip) s2))
             else if insertionMethod pos = ''afterParent'' then
               (case insertionPoint pos of
                  None \<Rightarrow> (Throw TypeError, s2)
                | Some ip \<Rightarrow>
                    (case parentElement s2 ip of
                       None \<Rightarrow> (Throw TypeError, s2)
                     | Some pe \<Rightarrow> insertBefore pe fragment (nextSibling s2 ip) s2))
             else
               (case insertionPoint pos of
                  None \<Rightarrow> (Throw TypeError, s2)
                | Some ip \<Rightarrow> insertBefore ip fragment (firstChild s2 ip) s2))
      in case r of
           Throw e \<Rightarrow> (Throw e, s3)
         | Return _ \<Rightarrow> (Return (), logLine (DebugInserted (insertionMethod pos)) s3))"

text \<open>\<^verbatim>\<open>initializeControls()\<close>: returns the wrapper. The inline style of the
  wrapper, and the shadow tree built inside it by \<^verbatim>\<open>ShadowDOMManager\<close> and wired
  by \<^verbatim>\<open>ControlsManager\<close>, are outside the store but for the speed text.\<close>

definition initializeControls :: "env \<Rightarrow> node option \<Rightarrow> node \<Rightarrow> state \<Rightarrow> node outcome \<times> state" where
  "initializeControls E par v s =
     (let s1 = logLine DebugControlsBegin s;
          speedText = toFixed1 (playbackRate s1 v);
          s2 = logLine (DebugSpeedVariable speedText) s1;
          (wrapper, s3) = createNode 1 s2;
          s4 = classListAdd wrapper ''vsc-controller'' s3;
          s5 = (if currentSrc s4 v = [] then classListAdd wrapper ''vsc-nosource'' s4 else s4);
          s6 = (if startHidden (settings s5) then classListAdd wrapper ''vsc-hidden'' s5
                else classListAdd wrapper ''vcs-show'' s5);
          s7 = s6\<lparr>shadowSpeed := (shadowSpeed s6)(wrapper \<mapsto> speedText)\<rparr>
      in case insertIntoDOM E par v wrapper s7 of
           (Throw e, s8) \<Rightarrow> (Throw e, s8)
         | (Return _, s8) \<Rightarrow> (Return wrapper, logLine DebugControlsEnd s8))"

text \<open>The handler bound to \<^verbatim>\<open>play\<close> and \<^verbatim>\<open>seeked\<close>; \<open>t\<close> is \<^verbatim>\<open>event.target\<close>.
  The inner test \<^verbatim>\<open>!storedSpeed\<close> is on a value that \<^verbatim>\<open>|| 1.0\<close> has made
  truthy.\<close>

definition mediaEventAction :: "env \<Rightarrow> node \<Rightarrow> state \<Rightarrow> state" where
  "mediaEventAction E t s =
     (let url = getBaseURL E (currentSrc s t);
          storedSpeed = orElse (speeds (settings s) url) 1;
          (storedSpeed', s1) =
            (if \<not> rememberSpeed (settings s) then
               (let (v, s') = (if storedSpeed = 0 then (1, logLine InfoOverwriting s)
                               else (storedSpeed, s));
                    s'' = logLine DebugResetToFast s'
                in (v, setKeyBinding ''reset'' (getKeyBinding ''fast'' s'') s''))
             else (storedSpeed, s));
          s2 = logLine (InfoExplicitlySetting storedSpeed') s1
      in s2\<lparr>setSpeedCalls := setSpeedCalls s2 @ [(t, storedSpeed')]\<rparr>)"

text \<open>\<^verbatim>\<open>setupEventHandlers()\<close>: two fresh bound functions, registered on the
  video. Returns the two handlers.\<close>

definition setupEventHandlers :: "node \<Rightarrow> state \<Rightarrow> (nat \<times> nat) \<times> state" where
  "setupEventHandlers v s =
     (let hp = nextId s; hs = Suc (nextId s);
          s1 = s\<lparr>nextId := Suc (Suc (nextId s))\<rparr>;
          s2 = addEventListener v ''play'' hp s1;
          s3 = addEventListener v ''seeked'' hs s2
      in ((hp, hs), s3))"

text \<open>The delivery of an event of type \<open>ty\<close> to element \<open>t\<close>: every handler
  registered for the type runs, in registration order.\<close>

definition deliver :: "env \<Rightarrow> string \<Rightarrow> node \<Rightarrow> state \<Rightarrow> state" where
  "deliver E ty t s =
     fold (\<lambda>_. mediaEventAction E t) (filter (\<lambda>p. fst p = ty) (listeners s t)) s"

text \<open>The callback of the observer of \<^verbatim>\<open>setupMutationObserver()\<close>, for the
  controller whose wrapper is \<open>d\<close>, and the setup itself.\<close>

definition onMutation :: "node \<Rightarrow> mutation \<Rightarrow> state \<Rightarrow> state" where
  "onMutation d m s =
     (if mtype m = ''attributes'' \<and> (attributeName m = ''src'' \<or> attributeName m = ''currentSrc'')
      then
        (let s1 = logLine DebugMutation s
         in if src s1 (mtarget m) = [] \<and> currentSrc s1 (mtarget m) = []
            then classListAdd d ''vsc-nosource'' s1
            else classListRemove d ''vsc-nosource'' s1)
      else s)"

definition onMutations :: "node \<Rightarrow> mutation list \<Rightarrow> state \<Rightarrow> state" where
  "onMutations d ms s = fold (onMutation d) ms s"

definition setupMutationObserver :: "node \<Rightarrow> state \<Rightarrow> nat \<times> state" where
  "setupMutationObserver v s =
     (let ob = nextId s
      in (ob, observe ob v (s\<lparr>nextId := Suc (nextId s)\<rparr>)))"

text \<open>The constructor: \<^verbatim>\<open>new VideoController(target, parent, config, actionHandler)\<close>.
  A constructor that returns an object makes \<^verbatim>\<open>new\<close> return that object.\<close>

definition create :: "env \<Rightarrow> node \<Rightarrow> node option \<Rightarrow> state \<Rightarrow> controller outcome \<times> state" where
  "create E target par s =
     (case vsc s target of
        Some c \<Rightarrow> (Return c, s)
      | None \<Rightarrow>
          (let thisParent = (case parentElement s target of Some p \<Rightarrow> Some p | None \<Rightarrow> par);
               s1 = addMediaElement target s;
               s2 = initializeSpeed E target s1
           in case initializeControls E thisParent target s2 of
                (Throw e, s3) \<Rightarrow> (Throw e, s3)
              | (Return w, s3) \<Rightarrow>
                  (let ((hp, hs), s4) = setupEventHandlers target s3;
                       (ob, s5) = setupMutationObserver target s4;
                       c = \<lparr>video = target, parent = thisParent, divE = w,
                            handlePlay = hp, handleSeek = hs, targetObserver = ob\<rparr>
                   in (Return c, logLine InfoInitialized (s5\<lparr>vsc := (vsc s5)(target \<mapsto> c)\<rparr>)))))"

text \<open>\<^verbatim>\<open>remove()\<close>. The tests \<^verbatim>\<open>this.div\<close>, \<^verbatim>\<open>this.handlePlay\<close>,
  \<^verbatim>\<open>this.handleSeek\<close> and \<^verbatim>\<open>this.targetObserver\<close> hold of every controller.\<close>

definition remove :: "controller \<Rightarrow> state \<Rightarrow> state" where
  "remove c s =
     (let s1 = logLine DebugRemoving s;
          s2 = (if parentNode s1 (divE c) \<noteq> None then removeNode (divE c) s1 else s1);
          s3 = removeEventListener (video c) ''play'' (handlePlay c) s2;
          s4 = removeEventListener (video c) ''seeked'' (handleSeek c) s3;
          s5 = disconnect (targetObserver c) s4;
          s6 = removeMediaElement (video c) s5;
          s7 = s6\<lparr>vsc := (vsc s6)((video c) := None)\<rparr>
      in logLine DebugRemoved s7)"

text \<open>Modelled from the spec: the entry point \<^verbatim>\<open>destroy(handle)\<close>, of which the
  sources hold the method \<^verbatim>\<open>remove()\<close> of the controller only. It tears down the
  controller attached to the handle, and does nothing when there is none.\<close>

definition destroy :: "node \<Rightarrow> state \<Rightarrow> state" where
  "destroy e s = (case vsc s e of None \<Rightarrow> s | Some c \<Rightarrow> remove c s)"

subsection \<open>MediaElementObserver: the document as a tree\<close>

text \<open>
  The scanner reads the document and never writes it, so for the scanner a
  document is a tree value. An \<open>element\<close> is a DOM node: \<open>nid\<close> is its identity,
  \<open>nodeName\<close> and \<open>localName\<close> its two names (an HTML element \<^verbatim>\<open>video\<close> has the node
  name \<^verbatim>\<open>VIDEO\<close> and the local name \<^verbatim>\<open>video\<close>; an element of another namespace
  keeps the case of its tag in both; a node that is not an element has an empty
  local name), \<open>nodeKind\<close> its \<^verbatim>\<open>nodeType\<close> (1 for an element, 3 for text, 9 for a
  document, 11 for a shadow root), \<open>children\<close> its \<^verbatim>\<open>childNodes\<close>, \<open>shadowRoot\<close> its
  open shadow root (\<^verbatim>\<open>null\<close> is \<open>None\<close>), \<open>look\<close> what \<^verbatim>\<open>isValidMediaElement\<close>
  reads of it. Two nodes of a page are the same object when their identities
  are equal; \<^verbatim>\<open>new Set\<close> compares objects, the model compares node values.
\<close>

record look =
  isConnected :: bool
  display :: string
  visibility :: string
  opacity :: string
  readyState :: nat
  rectWidth :: rat
  rectHeight :: rat

datatype element =
  Element (nid: nat) (nodeName: string) (localName: string) (nodeKind: nat) (look: look)
          (children: "element list") (shadowRoot: "element option")

datatype obslog =
    DebugShadowObserved
  | DebugShadowQueued
  | InfoFound nat nat nat
  | DebugFrameFound nat
  | DebugFrameDenied error
  | WarnInvalidSelector string error
  | InfoTotalUnique nat
  | DebugNotInDOM
  | DebugNotVisible
  | DebugStillLoading
  | DebugIgnoredLoading
  | DebugTooSmall rat rat
  | DebugIgnored
  | DebugPendingSetUp nat

text \<open>
  The observer object and what it reaches: \<^verbatim>\<open>config.settings.audioBoolean\<close>,
  whether \<^verbatim>\<open>this.mutationObserver\<close> is set (then \<open>observedShadowRoots\<close> lists the
  calls of its \<^verbatim>\<open>observeShadowRoot\<close>), the set \<^verbatim>\<open>this._pendingShadowRoots\<close> in
  insertion order (\<open>None\<close> while the field is undefined), and the log.
\<close>

record observer =
  audioBoolean :: bool
  hasMutationObserver :: bool
  observedShadowRoots :: "element list"
  pendingShadowRoots :: "element list option"
  obsLogged :: "obslog list"

text \<open>
  The site handler and the page functions the observer calls:
  \<^verbatim>\<open>document.querySelectorAll(selector)\<close> for a selector of the site handler (it
  throws on a malformed selector), \<^verbatim>\<open>DomUtils.findMediaElements\<close>, and the getter
  \<^verbatim>\<open>frame.contentDocument\<close> (it may throw, or give \<^verbatim>\<open>null\<close>).
\<close>

record site =
  shouldIgnoreVideo :: "element \<Rightarrow> bool"
  detectSpecialVideos :: "element \<Rightarrow> element list"
  getVideoContainerSelectors :: "string list"
  querySelectorAll :: "element \<Rightarrow> string \<Rightarrow> error + element list"
  findMediaElements :: "element \<Rightarrow> bool \<Rightarrow> element list"
  contentDocument :: "element \<Rightarrow> error + element option"

definition obsLog :: "obslog \<Rightarrow> observer \<Rightarrow> observer" where
  "obsLog m st = st\<lparr>obsLogged := obsLogged st @ [m]\<rparr>"

text \<open>\<^verbatim>\<open>[...new Set(xs)]\<close>: the first occurrence of every member, in order.\<close>

definition newSet :: "'a list \<Rightarrow> 'a list" where
  "newSet xs = rev (remdups (rev xs))"

definition mediaTagNodeNames :: "bool \<Rightarrow> string list" where
  "mediaTagNodeNames audioEnabled = (if audioEnabled then [''VIDEO'', ''AUDIO''] else [''VIDEO''])"

definition ignoredNodes :: "string list" where
  "ignoredNodes = [''#text'', ''STYLE'', ''SCRIPT'']"

text \<open>The filter on the children in \<^verbatim>\<open>traverse\<close>.\<close>

definition traversable :: "element \<Rightarrow> bool" where
  "traversable n = (nodeKind n = 1 \<and> nodeName n \<notin> set ignoredNodes)"

text \<open>The children \<^verbatim>\<open>traverse\<close> visits: the regular ones, then those of the
  shadow root.\<close>

definition visited :: "element list \<Rightarrow> element option \<Rightarrow> element list" where
  "visited cs sr =
     filter traversable (cs @ (case sr of None \<Rightarrow> [] | Some r \<Rightarrow> children r))"

text \<open>
  The inner \<^verbatim>\<open>traverse\<close> of \<^verbatim>\<open>_traverseForShadowRootsAndMedia\<close>, as the two lists
  it builds: the media elements pushed, and the shadow roots handed to
  \<^verbatim>\<open>_observeShadowRoot\<close>, both in the order of the calls (the node first, then its
  visited children from left to right).
\<close>

function traverse :: "bool \<Rightarrow> element \<Rightarrow> element list" where
  "traverse audioEnabled (Element i nm lnm k lk cs sr) =
     (if nm \<in> set (mediaTagNodeNames audioEnabled) then [Element i nm lnm k lk cs sr] else [])
     @ concat (map (traverse audioEnabled) (visited cs sr))"
  by pat_completeness auto
termination
proof (relation "measure (\<lambda>(a, e). size e)")
  show "wf (measure (\<lambda>(a, e). size e))" by simp
next
  fix audioEnabled :: bool and i :: nat and nm :: string and lnm :: string and k :: nat and lk :: look
    and cs :: "element list" and sr :: "element option" and x :: element
  assume x: "x \<in> set (visited cs sr)"
  have kids: "size y < size r" if "y \<in> set (children r)" for y r :: element
    using that size_list_estimation' [of y "children r" "size y" size]
    by (cases r) (auto simp: less_Suc_eq_le)
  have "size x < Suc (size_list size cs + size_option size sr)"
  proof (cases "x \<in> set cs")
    case True
    then show ?thesis
      using size_list_estimation' [of x cs "size x" size] by simp
  next
    case False
    with x obtain r where "sr = Some r" "x \<in> set (children r)"
      by (auto simp: visited_def split: option.splits)
    then show ?thesis using kids [of x r] by simp
  qed
  then show "((audioEnabled, x), (audioEnabled, Element i nm lnm k lk cs sr)) \<in> measure (\<lambda>(a, e). size e)"
    by simp
qed

function traverseRoots :: "element \<Rightarrow> element list" where
  "traverseRoots (Element i nm lnm k lk cs sr) =
     (case sr of None \<Rightarrow> [] | Some r \<Rightarrow> [r])
     @ concat (map traverseRoots (visited cs sr))"
  by pat_completeness auto
termination
proof (relation "measure size")
  show "wf (measure (size :: element \<Rightarrow> nat))" by simp
next
  fix i :: nat and nm :: string and lnm :: string and k :: nat and lk :: look
    and cs :: "element list" and sr :: "element option" and x :: element
  assume x: "x \<in> set (visited cs sr)"
  have kids: "size y < size r" if "y \<in> set (children r)" for y r :: element
    using that size_list_estimation' [of y "children r" "size y" size]
    by (cases r) (auto simp: less_Suc_eq_le)
  have "size x < Suc (size_list size cs + size_option size sr)"
  proof (cases "x \<in> set cs")
    case True
    then show ?thesis
      using size_list_estimation' [of x cs "size x" size] by simp
  next
    case False
    with x obtain r where "sr = Some r" "x \<in> set (children r)"
      by (auto simp: visited_def split: option.splits)
    then show ?thesis using kids [of x r] by simp
  qed
  then show "(x, Element i nm lnm k lk cs sr) \<in> measure size"
    by simp
qed

text \<open>\<^verbatim>\<open>_observeShadowRoot(shadowRoot)\<close>.\<close>

definition observeShadowRoot :: "element \<Rightarrow> observer \<Rightarrow> observer" where
  "observeShadowRoot r st =
     (if hasMutationObserver st then
        obsLog DebugShadowObserved (st\<lparr>observedShadowRoots := observedShadowRoots st @ [r]\<rparr>)
      else
        (let pending = (case pendingShadowRoots st of None \<Rightarrow> [] | Some p \<Rightarrow> p)
         in obsLog DebugShadowQueued
              (st\<lparr>pendingShadowRoots :=
                    Some (if r \<in> set pending then pending else pending @ [r])\<rparr>)))"

definition traverseForShadowRootsAndMedia ::
    "element \<Rightarrow> bool \<Rightarrow> observer \<Rightarrow> element list \<times> observer" where
  "traverseForShadowRootsAndMedia rootElement audioEnabled st =
     (traverse audioEnabled rootElement, fold observeShadowRoot (traverseRoots rootElement) st)"

text \<open>
  The descendants of a node in document order, and the two DOM queries on them.
  \<^verbatim>\<open>querySelectorAll\<close> with a list of type selectors in lower case
  (\<^verbatim>\<open>'video,audio'\<close> or \<^verbatim>\<open>'video'\<close>) returns the elements whose local name is one
  of them, whatever their namespace; \<^verbatim>\<open>getElementsByTagName\<close> with a name in
  lower case does the same for one name (namespace prefixes are not part of the
  tree). Neither enters a shadow root.
\<close>

fun descendants :: "element \<Rightarrow> element list" where
  "descendants (Element i nm lnm k lk cs sr) = concat (map (\<lambda>c. c # descendants c) cs)"

definition querySelectorAllTypes :: "string list \<Rightarrow> element \<Rightarrow> element list" where
  "querySelectorAllTypes names d =
     filter (\<lambda>n. nodeKind n = 1 \<and> localName n \<in> set names) (descendants d)"

definition getElementsByTagName :: "string \<Rightarrow> element \<Rightarrow> element list" where
  "getElementsByTagName name d =
     filter (\<lambda>n. nodeKind n = 1 \<and> localName n = name) (descendants d)"

text \<open>The type selectors of \<^verbatim>\<open>mediaTagSelector\<close>.\<close>

definition mediaTagSelector :: "bool \<Rightarrow> string list" where
  "mediaTagSelector audioEnabled = (if audioEnabled then [''video'', ''audio''] else [''video''])"

text \<open>\<^verbatim>\<open>scanForMedia(document)\<close>.\<close>

definition scanForMedia :: "site \<Rightarrow> element \<Rightarrow> observer \<Rightarrow> element list \<times> observer" where
  "scanForMedia S d st =
     (let audioEnabled = audioBoolean st;
          regularMedia = querySelectorAllTypes (mediaTagSelector audioEnabled) d;
          (shadowMedia, st1) = traverseForShadowRootsAndMedia d audioEnabled st;
          siteSpecificMedia = detectSpecialVideos S d;
          uniqueMedia = newSet (regularMedia @ shadowMedia @ siteSpecificMedia);
          filteredMedia = filter (\<lambda>m. \<not> shouldIgnoreVideo S m) uniqueMedia
      in (filteredMedia,
          obsLog (InfoFound (length filteredMedia) (length uniqueMedia)
                            (length uniqueMedia - length filteredMedia)) st1))"

text \<open>\<^verbatim>\<open>scanIframes(document)\<close>: one step for each frame, inside \<^verbatim>\<open>try\<close>.\<close>

definition scanFrame :: "site \<Rightarrow> element \<Rightarrow> element list \<times> observer \<Rightarrow> element list \<times> observer" where
  "scanFrame S frame acc =
     (case contentDocument S frame of
        Inl e \<Rightarrow> (fst acc, obsLog (DebugFrameDenied e) (snd acc))
      | Inr None \<Rightarrow> acc
      | Inr (Some childDocument) \<Rightarrow>
          (let (iframeMedia, st1) = scanForMedia S childDocument (snd acc)
           in (fst acc @ iframeMedia, obsLog (DebugFrameFound (length iframeMedia)) st1)))"

definition scanIframes :: "site \<Rightarrow> element \<Rightarrow> observer \<Rightarrow> element list \<times> observer" where
  "scanIframes S d st = fold (scanFrame S) (getElementsByTagName ''iframe'' d) ([], st)"

text \<open>\<^verbatim>\<open>scanSiteSpecificContainers(document)\<close>: one step for each selector, inside
  \<^verbatim>\<open>try\<close>.\<close>

definition scanSelector ::
    "site \<Rightarrow> element \<Rightarrow> bool \<Rightarrow> string \<Rightarrow> element list \<times> observer \<Rightarrow> element list \<times> observer" where
  "scanSelector S d audioEnabled selector acc =
     (case querySelectorAll S d selector of
        Inl e \<Rightarrow> (fst acc, obsLog (WarnInvalidSelector selector e) (snd acc))
      | Inr containers \<Rightarrow>
          (fst acc @ concat (map (\<lambda>container. findMediaElements S container audioEnabled) containers),
           snd acc))"

definition scanSiteSpecificContainers :: "site \<Rightarrow> element \<Rightarrow> observer \<Rightarrow> element list \<times> observer" where
  "scanSiteSpecificContainers S d st =
     fold (scanSelector S d (audioBoolean st)) (getVideoContainerSelectors S) ([], st)"

text \<open>\<^verbatim>\<open>scanAll(document)\<close>.\<close>

definition scanAll :: "site \<Rightarrow> element \<Rightarrow> observer \<Rightarrow> element list \<times> observer" where
  "scanAll S d st =
     (let (regularMedia, st1) = scanForMedia S d st;
          (containerMedia, st2) = scanSiteSpecificContainers S d st1;
          (iframeMedia, st3) = scanIframes S d st2;
          uniqueMedia = newSet (regularMedia @ containerMedia @ iframeMedia)
      in (uniqueMedia, obsLog (InfoTotalUnique (length uniqueMedia)) st3))"

text \<open>\<^verbatim>\<open>isValidMediaElement(media)\<close>.\<close>

definition isValidMediaElement :: "site \<Rightarrow> element \<Rightarrow> observer \<Rightarrow> bool \<times> observer" where
  "isValidMediaElement S media st =
     (if \<not> isConnected (look media) then (False, obsLog DebugNotInDOM st)
      else if display (look media) = ''none'' \<or> visibility (look media) = ''hidden''
              \<or> opacity (look media) = ''0''
      then (False, obsLog DebugNotVisible st)
      else if readyState (look media) < 2 then
        (let st1 = obsLog DebugStillLoading st
         in if shouldIgnoreVideo S media then (False, obsLog DebugIgnoredLoading st1)
            else (True, st1))
      else if rectWidth (look media) < 50 \<or> rectHeight (look media) < 50
      then (False, obsLog (DebugTooSmall (rectWidth (look media)) (rectHeight (look media))) st)
      else if shouldIgnoreVideo S media then (False, obsLog DebugIgnored st)
      else (True, st))"

text \<open>\<^verbatim>\<open>setMutationObserver(mutationObserver)\<close>.\<close>

definition setMutationObserver :: "observer \<Rightarrow> observer" where
  "setMutationObserver st =
     (case pendingShadowRoots st of
        None \<Rightarrow> st\<lparr>hasMutationObserver := True\<rparr>
      | Some pending \<Rightarrow>
          obsLog (DebugPendingSetUp (length pending))
            (st\<lparr>hasMutationObserver := True,
                observedShadowRoots := observedShadowRoots st @ pending,
                pendingShadowRoots := Some []\<rparr>))"

subsection \<open>Auxiliary definitions and example pages\<close>

text \<open>The value of \<^verbatim>\<open>this.parent\<close>: \<^verbatim>\<open>target.parentElement || parent\<close>.\<close>

abbreviation thisParentOf :: "state \<Rightarrow> node \<Rightarrow> node option \<Rightarrow> node option" where
  "thisParentOf s e p \<equiv> (case parentElement s e of Some q \<Rightarrow> Some q | None \<Rightarrow> p)"

text \<open>The state in which \<open>initializeControls\<close> calls \<open>insertIntoDOM\<close>: the body of
  \<open>initializeControls\<close> up to that call, the wrapper being the node \<open>nextId s\<close>.\<close>

definition wrapped :: "node \<Rightarrow> state \<Rightarrow> state" where
  "wrapped v s =
     (let s1 = logLine DebugControlsBegin s;
          speedText = toFixed1 (playbackRate s1 v);
          s2 = logLine (DebugSpeedVariable speedText) s1;
          s3 = snd (createNode 1 s2);
          s4 = classListAdd (nextId s) ''vsc-controller'' s3;
          s5 = (if currentSrc s4 v = [] then classListAdd (nextId s) ''vsc-nosource'' s4 else s4);
          s6 = (if startHidden (settings s5) then classListAdd (nextId s) ''vsc-hidden'' s5
                else classListAdd (nextId s) ''vcs-show'' s5)
      in s6\<lparr>shadowSpeed := (shadowSpeed s6)(nextId s \<mapsto> speedText)\<rparr>)"

text \<open>A mutation record the observer of \<open>setupMutationObserver\<close> is handed for
  element \<open>e\<close>: the observer watches that element, with the attribute filter
  \<^verbatim>\<open>['src', 'currentSrc']\<close>.\<close>

definition observedOn :: "node \<Rightarrow> mutation \<Rightarrow> bool" where
  "observedOn e m =
     (mtype m = ''attributes'' \<and>
      (attributeName m = ''src'' \<or> attributeName m = ''currentSrc'') \<and> mtarget m = e)"

text \<open>
  A page: the document (node 0), its body (node 1) and a video (node 2) in the
  body, without a source, no controller yet. Speeds are remembered, none is
  stored, the fast rate is 1.8.
\<close>

definition pageState :: state where
  "pageState =
     \<lparr>nextId = 3,
      nodeType = (\<lambda>n. if n = 0 then 9 else 1),
      parentNode = [1 \<mapsto> 0, 2 \<mapsto> 1],
      childNodes = (\<lambda>n. if n = 0 then [1] else if n = 1 then [2] else []),
      classList = (\<lambda>n. []),
      shadowSpeed = Map.empty,
      currentSrc = (\<lambda>n. []),
      src = (\<lambda>n. []),
      playbackRate = (\<lambda>n. 1),
      vsc = Map.empty,
      listeners = (\<lambda>n. []),
      observing = [],
      dispatched = [],
      settings = \<lparr>rememberSpeed = True, forceLastSavedSpeed = False, startHidden = False,
                  speeds = Map.empty, lastSpeed = None\<rparr>,
      keyBindings = [''fast'' \<mapsto> 9 / 5],
      mediaElements = [],
      setSpeedCalls = [],
      logged = []\<rparr>"

text \<open>A site handler that puts the overlay first in the parent of the video; one
  that gives no insertion point; one that asks for the overlay in front of the
  document node, which has no parent.\<close>

definition siteEnv :: env where
  "siteEnv = \<lparr>getBaseURL = (\<lambda>u. u),
              getControllerPosition =
                (\<lambda>par v. \<lparr>insertionPoint = par, insertionMethod = ''firstChild'',
                           targetParent = par\<rparr>)\<rparr>"

definition noAnchorEnv :: env where
  "noAnchorEnv = \<lparr>getBaseURL = (\<lambda>u. u),
                  getControllerPosition =
                    (\<lambda>par v. \<lparr>insertionPoint = None, insertionMethod = ''firstChild'',
                               targetParent = par\<rparr>)\<rparr>"

definition staleAnchorEnv :: env where
  "staleAnchorEnv = \<lparr>getBaseURL = (\<lambda>u. u),
                     getControllerPosition =
                       (\<lambda>par v. \<lparr>insertionPoint = Some 0, insertionMethod = ''beforeParent'',
                                  targetParent = par\<rparr>)\<rparr>"

text \<open>The page with a last-used speed of 2 and nothing stored for the video.\<close>

definition lastSpeedPage :: state where
  "lastSpeedPage = pageState\<lparr>settings := (settings pageState)\<lparr>lastSpeed := Some 2\<rparr>\<rparr>"

text \<open>The page with the video playing source \<open>a\<close>, a stored speed of 2 for it, and
  the force flag set.\<close>

definition forcedPage :: state where
  "forcedPage =
     pageState\<lparr>currentSrc := (\<lambda>n. ''a''),
               settings := \<lparr>rememberSpeed = True, forceLastSavedSpeed = True, startHidden = False,
                            speeds = [''a'' \<mapsto> 2], lastSpeed = None\<rparr>\<rparr>"

text \<open>The page with speeds not remembered, and a stored speed of 1.75 for the
  source of the video.\<close>

definition sessionPage :: state where
  "sessionPage =
     pageState\<lparr>currentSrc := (\<lambda>n. ''a''),
               settings := \<lparr>rememberSpeed = False, forceLastSavedSpeed = False, startHidden = False,
                            speeds = [''a'' \<mapsto> 7 / 4], lastSpeed = None\<rparr>\<rparr>"

text \<open>The page with a \<^verbatim>\<open>src\<close> attribute on the video, and no current source yet.\<close>

definition attributePage :: state where
  "attributePage = pageState\<lparr>src := (\<lambda>n. ''a'')\<rparr>"

text \<open>The controller the constructor builds for the video of these pages.\<close>

definition pageController :: controller where
  "pageController = \<lparr>video = 2, parent = Some 1, divE = 3,
                      handlePlay = 5, handleSeek = 6, targetObserver = 7\<rparr>"

subsection \<open>The specification's side of the scanner, and example documents\<close>

text \<open>
  The eligibility rules in the words of the specification (4.3), in its order.
  The specification leaves the readiness threshold ("metadata loaded") and the
  minimum width and height open: they are parameters here.
\<close>

definition hidden :: "look \<Rightarrow> bool" where
  "hidden lk = (display lk = ''none'' \<or> visibility lk = ''hidden'' \<or> opacity lk = ''0'')"

definition isEligible :: "nat \<Rightarrow> rat \<Rightarrow> rat \<Rightarrow> site \<Rightarrow> element \<Rightarrow> bool" where
  "isEligible metadataLoaded minWidth minHeight S h =
     (if \<not> isConnected (look h) then False
      else if hidden (look h) then False
      else if readyState (look h) < metadataLoaded then \<not> shouldIgnoreVideo S h
      else if rectWidth (look h) < minWidth \<or> rectHeight (look h) < minHeight then False
      else \<not> shouldIgnoreVideo S h)"

text \<open>The readiness levels of a media element that the rules speak of:
  \<^verbatim>\<open>HAVE_METADATA\<close> ("metadata loaded") and \<^verbatim>\<open>HAVE_CURRENT_DATA\<close>.\<close>

definition HAVE_METADATA :: nat where
  "HAVE_METADATA = 1"

definition HAVE_CURRENT_DATA :: nat where
  "HAVE_CURRENT_DATA = 2"

text \<open>
  The tree with its shadow trees, from the structure of the tree alone. The
  children of a node in it are its regular children and the children of its
  shadow root; \<open>composed\<close> lists a node and every node below it, \<open>insideBoundaries\<close>
  the nodes below it that lie inside a shadow boundary (under the shadow root of
  the node, or inside a boundary below one of its regular children).
\<close>

definition composedChildren :: "element \<Rightarrow> element list" where
  "composedChildren e = children e @ (case shadowRoot e of None \<Rightarrow> [] | Some r \<Rightarrow> children r)"

function composed :: "element \<Rightarrow> element list" where
  "composed (Element i nm lnm k lk cs sr) =
     Element i nm lnm k lk cs sr
     # concat (map composed (cs @ (case sr of None \<Rightarrow> [] | Some r \<Rightarrow> children r)))"
  by pat_completeness auto
termination
proof (relation "measure size")
  show "wf (measure (size :: element \<Rightarrow> nat))" by simp
next
  fix i :: nat and nm :: string and lnm :: string and k :: nat and lk :: look
    and cs :: "element list" and sr :: "element option" and x :: element
  assume x: "x \<in> set (cs @ (case sr of None \<Rightarrow> [] | Some r \<Rightarrow> children r))"
  have kids: "size y < size r" if "y \<in> set (children r)" for y r :: element
    using that size_list_estimation' [of y "children r" "size y" size]
    by (cases r) (auto simp: less_Suc_eq_le)
  have "size x < Suc (size_list size cs + size_option size sr)"
  proof (cases "x \<in> set cs")
    case True
    then show ?thesis
      using size_list_estimation' [of x cs "size x" size] by simp
  next
    case False
    with x obtain r where "sr = Some r" "x \<in> set (children r)"
      by (auto split: option.splits)
    then show ?thesis using kids [of x r] by simp
  qed
  then show "(x, Element i nm lnm k lk cs sr) \<in> measure size"
    by simp
qed

fun insideBoundaries :: "element \<Rightarrow> element list" where
  "insideBoundaries (Element i nm lnm k lk cs sr) =
     (case sr of None \<Rightarrow> [] | Some r \<Rightarrow> concat (map composed (children r)))
     @ concat (map insideBoundaries cs)"

text \<open>
  A media element in the words of the specification (4.1): an element with a
  media tag, video, and audio when audio is enabled. And the assumptions on a
  tree under which the scan can be counted: its elements are named as HTML
  names them (the node name is \<^verbatim>\<open>VIDEO\<close> or \<^verbatim>\<open>AUDIO\<close> exactly for the media
  tags), and no media element lies below a node of a skipped kind (a node that
  is not an element, a style or a script node).
\<close>

definition mediaElement :: "bool \<Rightarrow> element \<Rightarrow> bool" where
  "mediaElement audioEnabled e =
     (nodeKind e = 1 \<and> localName e \<in> set (if audioEnabled then [''video'', ''audio''] else [''video'']))"

definition skipped :: "element \<Rightarrow> bool" where
  "skipped n = (nodeKind n \<noteq> 1 \<or> nodeName n \<in> {''#text'', ''STYLE'', ''SCRIPT''})"

definition mediaFree :: "bool \<Rightarrow> element \<Rightarrow> bool" where
  "mediaFree audioEnabled n = list_all (\<lambda>x. \<not> mediaElement audioEnabled x) (composed n)"

definition htmlNamed :: "bool \<Rightarrow> element \<Rightarrow> bool" where
  "htmlNamed audioEnabled d =
     list_all (\<lambda>e. (nodeName e \<in> set (if audioEnabled then [''VIDEO'', ''AUDIO''] else [''VIDEO'']))
                     = (localName e \<in> set (if audioEnabled then [''video'', ''audio''] else [''video''])))
              (composed d)"

definition skipsNoMedia :: "bool \<Rightarrow> element \<Rightarrow> bool" where
  "skipsNoMedia audioEnabled d =
     list_all (\<lambda>p. list_all (\<lambda>c. skipped c \<longrightarrow> mediaFree audioEnabled c) (composedChildren p))
              (composed d)"

text \<open>The three lists \<open>scanAll\<close> joins, as functions of the document alone: what
  \<open>scanForMedia\<close>, \<open>scanSiteSpecificContainers\<close> and \<open>scanIframes\<close> return.\<close>

definition mediaOf :: "site \<Rightarrow> bool \<Rightarrow> element \<Rightarrow> element list" where
  "mediaOf S audioEnabled d =
     filter (\<lambda>m. \<not> shouldIgnoreVideo S m)
       (newSet (querySelectorAllTypes (mediaTagSelector audioEnabled) d @ traverse audioEnabled d
                @ detectSpecialVideos S d))"

definition containerMediaOf :: "site \<Rightarrow> bool \<Rightarrow> element \<Rightarrow> element list" where
  "containerMediaOf S audioEnabled d =
     concat (map (\<lambda>selector.
                    case querySelectorAll S d selector of
                      Inl e \<Rightarrow> []
                    | Inr containers \<Rightarrow>
                        concat (map (\<lambda>container. findMediaElements S container audioEnabled)
                                    containers))
                 (getVideoContainerSelectors S))"

definition frameMediaOf :: "site \<Rightarrow> bool \<Rightarrow> element \<Rightarrow> element list" where
  "frameMediaOf S audioEnabled d =
     concat (map (\<lambda>frame.
                    case contentDocument S frame of
                      Inl e \<Rightarrow> []
                    | Inr None \<Rightarrow> []
                    | Inr (Some childDocument) \<Rightarrow> mediaOf S audioEnabled childDocument)
                 (getElementsByTagName ''iframe'' d))"

text \<open>A visible, loaded, large element; a site handler that ignores the node 9
  only and adds nothing; an observer before any scan.\<close>

definition plainLook :: look where
  "plainLook = \<lparr>isConnected = True, display = ''block'', visibility = ''visible'',
                opacity = ''1'', readyState = 4, rectWidth = 640, rectHeight = 360\<rparr>"

definition plainSite :: site where
  "plainSite = \<lparr>shouldIgnoreVideo = (\<lambda>m. nid m = 9),
                detectSpecialVideos = (\<lambda>d. []),
                getVideoContainerSelectors = [],
                querySelectorAll = (\<lambda>d selector. Inl SyntaxError),
                findMediaElements = (\<lambda>container audioEnabled. []),
                contentDocument = (\<lambda>frame. Inl SecurityError)\<rparr>"

definition freshObserver :: observer where
  "freshObserver = \<lparr>audioBoolean = False, hasMutationObserver = False,
                    observedShadowRoots = [], pendingShadowRoots = None, obsLogged = []\<rparr>"

definition videoWith :: "nat \<Rightarrow> look \<Rightarrow> element" where
  "videoWith i lk = Element i ''VIDEO'' ''video'' 1 lk [] None"

text \<open>A video that has its metadata and no more, in a box of 10 by 10.\<close>

definition smallLoadingVideo :: element where
  "smallLoadingVideo =
     videoWith 2 (plainLook\<lparr>readyState := 1, rectWidth := 10, rectHeight := 10\<rparr>)"

text \<open>A document whose only video is not displayed; a document with one video
  in the body and one inside the shadow root of a host element; and a document
  whose only video is inside the shadow root of a host that a script has put
  under a style element.\<close>

definition hiddenVideoDocument :: element where
  "hiddenVideoDocument =
     Element 0 ''#document'' [] 9 plainLook
       [Element 1 ''BODY'' ''body'' 1 plainLook
          [videoWith 2 (plainLook\<lparr>display := ''none''\<rparr>)] None]
       None"

definition shadowDocument :: element where
  "shadowDocument =
     Element 0 ''#document'' [] 9 plainLook
       [Element 1 ''BODY'' ''body'' 1 plainLook
          [videoWith 2 plainLook,
           Element 3 ''DIV'' ''div'' 1 plainLook []
             (Some (Element 4 ''#document-fragment'' [] 11 plainLook [videoWith 5 plainLook] None)),
           Element 6 ''#text'' [] 3 plainLook [] None]
          None]
       None"

definition styleHostDocument :: element where
  "styleHostDocument =
     Element 0 ''#document'' [] 9 plainLook
       [Element 1 ''BODY'' ''body'' 1 plainLook
          [Element 2 ''STYLE'' ''style'' 1 plainLook
             [Element 3 ''DIV'' ''div'' 1 plainLook []
                (Some (Element 4 ''#document-fragment'' [] 11 plainLook
                         [videoWith 5 plainLook] None))]
             None]
          None]
       None"

section \<open>Properties of the controller\<close>

subsection \<open>What each operation leaves alone\<close>

lemma logLine_frame [simp]:
  "nextId (logLine m s) = nextId s"
  "nodeType (logLine m s) = nodeType s"
  "parentNode (logLine m s) = parentNode s"
  "childNodes (logLine m s) = childNodes s"
  "classList (logLine m s) = classList s"
  "shadowSpeed (logLine m s) = shadowSpeed s"
  "currentSrc (logLine m s) = currentSrc s"
  "src (logLine m s) = src s"
  "playbackRate (logLine m s) = playbackRate s"
  "vsc (logLine m s) = vsc s"
  "listeners (logLine m s) = listeners s"
  "observing (logLine m s) = observing s"
  "dispatched (logLine m s) = dispatched s"
  "settings (logLine m s) = settings s"
  "keyBindings (logLine m s) = keyBindings s"
  "mediaElements (logLine m s) = mediaElements s"
  "setSpeedCalls (logLine m s) = setSpeedCalls s"
  by (simp_all add: logLine_def)

lemma createNode_frame [simp]:
  "shadowSpeed (snd (createNode ty s)) = shadowSpeed s"
  "currentSrc (snd (createNode ty s)) = currentSrc s"
  "src (snd (createNode ty s)) = src s"
  "playbackRate (snd (createNode ty s)) = playbackRate s"
  "vsc (snd (createNode ty s)) = vsc s"
  "listeners (snd (createNode ty s)) = listeners s"
  "observing (snd (createNode ty s)) = observing s"
  "dispatched (snd (createNode ty s)) = dispatched s"
  "settings (snd (createNode ty s)) = settings s"
  "keyBindings (snd (createNode ty s)) = keyBindings s"
  "mediaElements (snd (createNode ty s)) = mediaElements s"
  "setSpeedCalls (snd (createNode ty s)) = setSpeedCalls s"
  "logged (snd (createNode ty s)) = logged s"
  by (simp_all add: createNode_def Let_def)

lemma classListAdd_frame [simp]:
  "nextId (classListAdd n c s) = nextId s"
  "nodeType (classListAdd n c s) = nodeType s"
  "parentNode (classListAdd n c s) = parentNode s"
  "childNodes (classListAdd n c s) = childNodes s"
  "shadowSpeed (classListAdd n c s) = shadowSpeed s"
  "currentSrc (classListAdd n c s) = currentSrc s"
  "src (classListAdd n c s) = src s"
  "playbackRate (classListAdd n c s) = playbackRate s"
  "vsc (classListAdd n c s) = vsc s"
  "listeners (classListAdd n c s) = listeners s"
  "observing (classListAdd n c s) = observing s"
  "dispatched (classListAdd n c s) = dispatched s"
  "settings (classListAdd n c s) = settings s"
  "keyBindings (classListAdd n c s) = keyBindings s"
  "mediaElements (classListAdd n c s) = mediaElements s"
  "setSpeedCalls (classListAdd n c s) = setSpeedCalls s"
  "logged (classListAdd n c s) = logged s"
  by (simp_all add: classListAdd_def)

lemma classListRemove_frame [simp]:
  "nextId (classListRemove n c s) = nextId s"
  "nodeType (classListRemove n c s) = nodeType s"
  "parentNode (classListRemove n c s) = parentNode s"
  "childNodes (classListRemove n c s) = childNodes s"
  "shadowSpeed (classListRemove n c s) = shadowSpeed s"
  "currentSrc (classListRemove n c s) = currentSrc s"
  "src (classListRemove n c s) = src s"
  "playbackRate (classListRemove n c s) = playbackRate s"
  "vsc (classListRemove n c s) = vsc s"
  "listeners (classListRemove n c s) = listeners s"
  "observing (classListRemove n c s) = observing s"
  "dispatched (classListRemove n c s) = dispatched s"
  "settings (classListRemove n c s) = settings s"
  "keyBindings (classListRemove n c s) = keyBindings s"
  "mediaElements (classListRemove n c s) = mediaElements s"
  "setSpeedCalls (classListRemove n c s) = setSpeedCalls s"
  "logged (classListRemove n c s) = logged s"
  by (simp_all add: classListRemove_def)

lemma appendChild_frame [simp]:
  "nextId (appendChild p c s) = nextId s"
  "nodeType (appendChild p c s) = nodeType s"
  "classList (appendChild p c s) = classList s"
  "shadowSpeed (appendChild p c s) = shadowSpeed s"
  "currentSrc (appendChild p c s) = currentSrc s"
  "src (appendChild p c s) = src s"
  "playbackRate (appendChild p c s) = playbackRate s"
  "vsc (appendChild p c s) = vsc s"
  "listeners (appendChild p c s) = listeners s"
  "observing (appendChild p c s) = observing s"
  "dispatched (appendChild p c s) = dispatched s"
  "settings (appendChild p c s) = settings s"
  "keyBindings (appendChild p c s) = keyBindings s"
  "mediaElements (appendChild p c s) = mediaElements s"
  "setSpeedCalls (appendChild p c s) = setSpeedCalls s"
  "logged (appendChild p c s) = logged s"
  by (simp_all add: appendChild_def)

lemma insertBefore_frame [simp]:
  "nextId (snd (insertBefore p frag ref s)) = nextId s"
  "nodeType (snd (insertBefore p frag ref s)) = nodeType s"
  "classList (snd (insertBefore p frag ref s)) = classList s"
  "shadowSpeed (snd (insertBefore p frag ref s)) = shadowSpeed s"
  "currentSrc (snd (insertBefore p frag ref s)) = currentSrc s"
  "src (snd (insertBefore p frag ref s)) = src s"
  "playbackRate (snd (insertBefore p frag ref s)) = playbackRate s"
  "vsc (snd (insertBefore p frag ref s)) = vsc s"
  "listeners (snd (insertBefore p frag ref s)) = listeners s"
  "observing (snd (insertBefore p frag ref s)) = observing s"
  "dispatched (snd (insertBefore p frag ref s)) = dispatched s"
  "settings (snd (insertBefore p frag ref s)) = settings s"
  "keyBindings (snd (insertBefore p frag ref s)) = keyBindings s"
  "mediaElements (snd (insertBefore p frag ref s)) = mediaElements s"
  "setSpeedCalls (snd (insertBefore p frag ref s)) = setSpeedCalls s"
  "logged (snd (insertBefore p frag ref s)) = logged s"
  by (simp_all add: insertBefore_def Let_def)

lemma removeNode_frame [simp]:
  "nextId (removeNode n s) = nextId s"
  "nodeType (removeNode n s) = nodeType s"
  "classList (removeNode n s) = classList s"
  "shadowSpeed (removeNode n s) = shadowSpeed s"
  "currentSrc (removeNode n s) = currentSrc s"
  "src (removeNode n s) = src s"
  "playbackRate (removeNode n s) = playbackRate s"
  "vsc (removeNode n s) = vsc s"
  "listeners (removeNode n s) = listeners s"
  "observing (removeNode n s) = observing s"
  "dispatched (removeNode n s) = dispatched s"
  "settings (removeNode n s) = settings s"
  "keyBindings (removeNode n s) = keyBindings s"
  "mediaElements (removeNode n s) = mediaElements s"
  "setSpeedCalls (removeNode n s) = setSpeedCalls s"
  "logged (removeNode n s) = logged s"
  by (simp_all add: removeNode_def split: option.splits)

lemma addEventListener_frame [simp]:
  "nextId (addEventListener n ty h s) = nextId s"
  "nodeType (addEventListener n ty h s) = nodeType s"
  "parentNode (addEventListener n ty h s) = parentNode s"
  "childNodes (addEventListener n ty h s) = childNodes s"
  "classList (addEventListener n ty h s) = classList s"
  "shadowSpeed (addEventListener n ty h s) = shadowSpeed s"
  "currentSrc (addEventListener n ty h s) = currentSrc s"
  "src (addEventListener n ty h s) = src s"
  "playbackRate (addEventListener n ty h s) = playbackRate s"
  "vsc (addEventListener n ty h s) = vsc s"
  "observing (addEventListener n ty h s) = observing s"
  "dispatched (addEventListener n ty h s) = dispatched s"
  "settings (addEventListener n ty h s) = settings s"
  "keyBindings (addEventListener n ty h s) = keyBindings s"
  "mediaElements (addEventListener n ty h s) = mediaElements s"
  "setSpeedCalls (addEventListener n ty h s) = setSpeedCalls s"
  "logged (addEventListener n ty h s) = logged s"
  by (simp_all add: addEventListener_def)

lemma removeEventListener_frame [simp]:
  "nextId (removeEventListener n ty h s) = nextId s"
  "nodeType (removeEventListener n ty h s) = nodeType s"
  "parentNode (removeEventListener n ty h s) = parentNode s"
  "childNodes (removeEventListener n ty h s) = childNodes s"
  "classList (removeEventListener n ty h s) = classList s"
  "shadowSpeed (removeEventListener n ty h s) = shadowSpeed s"
  "currentSrc (removeEventListener n ty h s) = currentSrc s"
  "src (removeEventListener n ty h s) = src s"
  "playbackRate (removeEventListener n ty h s) = playbackRate s"
  "vsc (removeEventListener n ty h s) = vsc s"
  "observing (removeEventListener n ty h s) = observing s"
  "dispatched (removeEventListener n ty h s) = dispatched s"
  "settings (removeEventListener n ty h s) = settings s"
  "keyBindings (removeEventListener n ty h s) = keyBindings s"
  "mediaElements (removeEventListener n ty h s) = mediaElements s"
  "setSpeedCalls (removeEventListener n ty h s) = setSpeedCalls s"
  "logged (removeEventListener n ty h s) = logged s"
  by (simp_all add: removeEventListener_def)

lemma dispatchEvent_frame [simp]:
  "nextId (dispatchEvent n ev s) = nextId s"
  "nodeType (dispatchEvent n ev s) = nodeType s"
  "parentNode (dispatchEvent n ev s) = parentNode s"
  "childNodes (dispatchEvent n ev s) = childNodes s"
  "classList (dispatchEvent n ev s) = classList s"
  "shadowSpeed (dispatchEvent n ev s) = shadowSpeed s"
  "currentSrc (dispatchEvent n ev s) = currentSrc s"
  "src (dispatchEvent n ev s) = src s"
  "playbackRate (dispatchEvent n ev s) = playbackRate s"
  "vsc (dispatchEvent n ev s) = vsc s"
  "listeners (dispatchEvent n ev s) = listeners s"
  "observing (dispatchEvent n ev s) = observing s"
  "settings (dispatchEvent n ev s) = settings s"
  "keyBindings (dispatchEvent n ev s) = keyBindings s"
  "mediaElements (dispatchEvent n ev s) = mediaElements s"
  "setSpeedCalls (dispatchEvent n ev s) = setSpeedCalls s"
  "logged (dispatchEvent n ev s) = logged s"
  by (simp_all add: dispatchEvent_def)

lemma observe_frame [simp]:
  "nextId (observe ob n s) = nextId s"
  "nodeType (observe ob n s) = nodeType s"
  "parentNode (observe ob n s) = parentNode s"
  "childNodes (observe ob n s) = childNodes s"
  "classList (observe ob n s) = classList s"
  "shadowSpeed (observe ob n s) = shadowSpeed s"
  "currentSrc (observe ob n s) = currentSrc s"
  "src (observe ob n s) = src s"
  "playbackRate (observe ob n s) = playbackRate s"
  "vsc (observe ob n s) = vsc s"
  "listeners (observe ob n s) = listeners s"
  "dispatched (observe ob n s) = dispatched s"
  "settings (observe ob n s) = settings s"
  "keyBindings (observe ob n s) = keyBindings s"
  "mediaElements (observe ob n s) = mediaElements s"
  "setSpeedCalls (observe ob n s) = setSpeedCalls s"
  "logged (observe ob n s) = logged s"
  by (simp_all add: observe_def)

lemma disconnect_frame [simp]:
  "nextId (disconnect ob s) = nextId s"
  "nodeType (disconnect ob s) = nodeType s"
  "parentNode (disconnect ob s) = parentNode s"
  "childNodes (disconnect ob s) = childNodes s"
  "classList (disconnect ob s) = classList s"
  "shadowSpeed (disconnect ob s) = shadowSpeed s"
  "currentSrc (disconnect ob s) = currentSrc s"
  "src (disconnect ob s) = src s"
  "playbackRate (disconnect ob s) = playbackRate s"
  "vsc (disconnect ob s) = vsc s"
  "listeners (disconnect ob s) = listeners s"
  "dispatched (disconnect ob s) = dispatched s"
  "settings (disconnect ob s) = settings s"
  "keyBindings (disconnect ob s) = keyBindings s"
  "mediaElements (disconnect ob s) = mediaElements s"
  "setSpeedCalls (disconnect ob s) = setSpeedCalls s"
  "logged (disconnect ob s) = logged s"
  by (simp_all add: disconnect_def)

lemma addMediaElement_frame [simp]:
  "nextId (addMediaElement n s) = nextId s"
  "nodeType (addMediaElement n s) = nodeType s"
  "parentNode (addMediaElement n s) = parentNode s"
  "childNodes (addMediaElement n s) = childNodes s"
  "classList (addMediaElement n s) = classList s"
  "shadowSpeed (addMediaElement n s) = shadowSpeed s"
  "currentSrc (addMediaElement n s) = currentSrc s"
  "src (addMediaElement n s) = src s"
  "playbackRate (addMediaElement n s) = playbackRate s"
  "vsc (addMediaElement n s) = vsc s"
  "listeners (addMediaElement n s) = listeners s"
  "observing (addMediaElement n s) = observing s"
  "dispatched (addMediaElement n s) = dispatched s"
  "settings (addMediaElement n s) = settings s"
  "keyBindings (addMediaElement n s) = keyBindings s"
  "setSpeedCalls (addMediaElement n s) = setSpeedCalls s"
  "logged (addMediaElement n s) = logged s"
  by (simp_all add: addMediaElement_def)

lemma removeMediaElement_frame [simp]:
  "nextId (removeMediaElement n s) = nextId s"
  "nodeType (removeMediaElement n s) = nodeType s"
  "parentNode (removeMediaElement n s) = parentNode s"
  "childNodes (removeMediaElement n s) = childNodes s"
  "classList (removeMediaElement n s) = classList s"
  "shadowSpeed (removeMediaElement n s) = shadowSpeed s"
  "currentSrc (removeMediaElement n s) = currentSrc s"
  "src (removeMediaElement n s) = src s"
  "playbackRate (removeMediaElement n s) = playbackRate s"
  "vsc (removeMediaElement n s) = vsc s"
  "listeners (removeMediaElement n s) = listeners s"
  "observing (removeMediaElement n s) = observing s"
  "dispatched (removeMediaElement n s) = dispatched s"
  "settings (removeMediaElement n s) = settings s"
  "keyBindings (removeMediaElement n s) = keyBindings s"
  "setSpeedCalls (removeMediaElement n s) = setSpeedCalls s"
  "logged (removeMediaElement n s) = logged s"
  by (simp_all add: removeMediaElement_def)

lemma setKeyBinding_frame [simp]:
  "nextId (setKeyBinding a v s) = nextId s"
  "nodeType (setKeyBinding a v s) = nodeType s"
  "parentNode (setKeyBinding a v s) = parentNode s"
  "childNodes (setKeyBinding a v s) = childNodes s"
  "classList (setKeyBinding a v s) = classList s"
  "shadowSpeed (setKeyBinding a v s) = shadowSpeed s"
  "currentSrc (setKeyBinding a v s) = currentSrc s"
  "src (setKeyBinding a v s) = src s"
  "playbackRate (setKeyBinding a v s) = playbackRate s"
  "vsc (setKeyBinding a v s) = vsc s"
  "listeners (setKeyBinding a v s) = listeners s"
  "observing (setKeyBinding a v s) = observing s"
  "dispatched (setKeyBinding a v s) = dispatched s"
  "settings (setKeyBinding a v s) = settings s"
  "mediaElements (setKeyBinding a v s) = mediaElements s"
  "setSpeedCalls (setKeyBinding a v s) = setSpeedCalls s"
  "logged (setKeyBinding a v s) = logged s"
  by (simp_all add: setKeyBinding_def)

lemma resolveSpeed_frame [simp]:
  "nextId (snd (resolveSpeed E v s)) = nextId s"
  "nodeType (snd (resolveSpeed E v s)) = nodeType s"
  "parentNode (snd (resolveSpeed E v s)) = parentNode s"
  "childNodes (snd (resolveSpeed E v s)) = childNodes s"
  "classList (snd (resolveSpeed E v s)) = classList s"
  "shadowSpeed (snd (resolveSpeed E v s)) = shadowSpeed s"
  "currentSrc (snd (resolveSpeed E v s)) = currentSrc s"
  "src (snd (resolveSpeed E v s)) = src s"
  "playbackRate (snd (resolveSpeed E v s)) = playbackRate s"
  "vsc (snd (resolveSpeed E v s)) = vsc s"
  "listeners (snd (resolveSpeed E v s)) = listeners s"
  "observing (snd (resolveSpeed E v s)) = observing s"
  "dispatched (snd (resolveSpeed E v s)) = dispatched s"
  "settings (snd (resolveSpeed E v s)) = settings s"
  "mediaElements (snd (resolveSpeed E v s)) = mediaElements s"
  "setSpeedCalls (snd (resolveSpeed E v s)) = setSpeedCalls s"
  by (simp_all add: resolveSpeed_def Let_def split_def split: option.splits)

lemma initializeSpeed_frame [simp]:
  "nextId (initializeSpeed E v s) = nextId s"
  "nodeType (initializeSpeed E v s) = nodeType s"
  "parentNode (initializeSpeed E v s) = parentNode s"
  "childNodes (initializeSpeed E v s) = childNodes s"
  "classList (initializeSpeed E v s) = classList s"
  "shadowSpeed (initializeSpeed E v s) = shadowSpeed s"
  "currentSrc (initializeSpeed E v s) = currentSrc s"
  "src (initializeSpeed E v s) = src s"
  "vsc (initializeSpeed E v s) = vsc s"
  "listeners (initializeSpeed E v s) = listeners s"
  "observing (initializeSpeed E v s) = observing s"
  "settings (initializeSpeed E v s) = settings s"
  "mediaElements (initializeSpeed E v s) = mediaElements s"
  "setSpeedCalls (initializeSpeed E v s) = setSpeedCalls s"
  by (simp_all add: initializeSpeed_def Let_def split_def)

lemma insertIntoDOM_frame [simp]:
  "shadowSpeed (snd (insertIntoDOM E par v w s)) = shadowSpeed s"
  "currentSrc (snd (insertIntoDOM E par v w s)) = currentSrc s"
  "src (snd (insertIntoDOM E par v w s)) = src s"
  "playbackRate (snd (insertIntoDOM E par v w s)) = playbackRate s"
  "vsc (snd (insertIntoDOM E par v w s)) = vsc s"
  "listeners (snd (insertIntoDOM E par v w s)) = listeners s"
  "observing (snd (insertIntoDOM E par v w s)) = observing s"
  "dispatched (snd (insertIntoDOM E par v w s)) = dispatched s"
  "settings (snd (insertIntoDOM E par v w s)) = settings s"
  "keyBindings (snd (insertIntoDOM E par v w s)) = keyBindings s"
  "mediaElements (snd (insertIntoDOM E par v w s)) = mediaElements s"
  "setSpeedCalls (snd (insertIntoDOM E par v w s)) = setSpeedCalls s"
  by (simp_all add: insertIntoDOM_def Let_def split_def split: option.splits outcome.splits)

lemma initializeControls_frame [simp]:
  "currentSrc (snd (initializeControls E par v s)) = currentSrc s"
  "src (snd (initializeControls E par v s)) = src s"
  "playbackRate (snd (initializeControls E par v s)) = playbackRate s"
  "vsc (snd (initializeControls E par v s)) = vsc s"
  "listeners (snd (initializeControls E par v s)) = listeners s"
  "observing (snd (initializeControls E par v s)) = observing s"
  "dispatched (snd (initializeControls E par v s)) = dispatched s"
  "settings (snd (initializeControls E par v s)) = settings s"
  "keyBindings (snd (initializeControls E par v s)) = keyBindings s"
  "mediaElements (snd (initializeControls E par v s)) = mediaElements s"
  "setSpeedCalls (snd (initializeControls E par v s)) = setSpeedCalls s"
  by (simp_all add: initializeControls_def Let_def split_def split: outcome.splits)

lemma mediaEventAction_frame [simp]:
  "nextId (mediaEventAction E t s) = nextId s"
  "nodeType (mediaEventAction E t s) = nodeType s"
  "parentNode (mediaEventAction E t s) = parentNode s"
  "childNodes (mediaEventAction E t s) = childNodes s"
  "classList (mediaEventAction E t s) = classList s"
  "shadowSpeed (mediaEventAction E t s) = shadowSpeed s"
  "currentSrc (mediaEventAction E t s) = currentSrc s"
  "src (mediaEventAction E t s) = src s"
  "playbackRate (mediaEventAction E t s) = playbackRate s"
  "vsc (mediaEventAction E t s) = vsc s"
  "listeners (mediaEventAction E t s) = listeners s"
  "observing (mediaEventAction E t s) = observing s"
  "dispatched (mediaEventAction E t s) = dispatched s"
  "settings (mediaEventAction E t s) = settings s"
  "mediaElements (mediaEventAction E t s) = mediaElements s"
  by (simp_all add: mediaEventAction_def Let_def split_def)

lemma setupEventHandlers_frame [simp]:
  "nodeType (snd (setupEventHandlers v s)) = nodeType s"
  "parentNode (snd (setupEventHandlers v s)) = parentNode s"
  "childNodes (snd (setupEventHandlers v s)) = childNodes s"
  "classList (snd (setupEventHandlers v s)) = classList s"
  "shadowSpeed (snd (setupEventHandlers v s)) = shadowSpeed s"
  "currentSrc (snd (setupEventHandlers v s)) = currentSrc s"
  "src (snd (setupEventHandlers v s)) = src s"
  "playbackRate (snd (setupEventHandlers v s)) = playbackRate s"
  "vsc (snd (setupEventHandlers v s)) = vsc s"
  "observing (snd (setupEventHandlers v s)) = observing s"
  "dispatched (snd (setupEventHandlers v s)) = dispatched s"
  "settings (snd (setupEventHandlers v s)) = settings s"
  "keyBindings (snd (setupEventHandlers v s)) = keyBindings s"
  "mediaElements (snd (setupEventHandlers v s)) = mediaElements s"
  "setSpeedCalls (snd (setupEventHandlers v s)) = setSpeedCalls s"
  "logged (snd (setupEventHandlers v s)) = logged s"
  by (simp_all add: setupEventHandlers_def Let_def)

lemma setupMutationObserver_frame [simp]:
  "nodeType (snd (setupMutationObserver v s)) = nodeType s"
  "parentNode (snd (setupMutationObserver v s)) = parentNode s"
  "childNodes (snd (setupMutationObserver v s)) = childNodes s"
  "classList (snd (setupMutationObserver v s)) = classList s"
  "shadowSpeed (snd (setupMutationObserver v s)) = shadowSpeed s"
  "currentSrc (snd (setupMutationObserver v s)) = currentSrc s"
  "src (snd (setupMutationObserver v s)) = src s"
  "playbackRate (snd (setupMutationObserver v s)) = playbackRate s"
  "vsc (snd (setupMutationObserver v s)) = vsc s"
  "listeners (snd (setupMutationObserver v s)) = listeners s"
  "dispatched (snd (setupMutationObserver v s)) = dispatched s"
  "settings (snd (setupMutationObserver v s)) = settings s"
  "keyBindings (snd (setupMutationObserver v s)) = keyBindings s"
  "mediaElements (snd (setupMutationObserver v s)) = mediaElements s"
  "setSpeedCalls (snd (setupMutationObserver v s)) = setSpeedCalls s"
  "logged (snd (setupMutationObserver v s)) = logged s"
  by (simp_all add: setupMutationObserver_def Let_def)

lemma onMutation_frame [simp]:
  "nextId (onMutation d m s) = nextId s"
  "nodeType (onMutation d m s) = nodeType s"
  "parentNode (onMutation d m s) = parentNode s"
  "childNodes (onMutation d m s) = childNodes s"
  "shadowSpeed (onMutation d m s) = shadowSpeed s"
  "currentSrc (onMutation d m s) = currentSrc s"
  "src (onMutation d m s) = src s"
  "playbackRate (onMutation d m s) = playbackRate s"
  "vsc (onMutation d m s) = vsc s"
  "listeners (onMutation d m s) = listeners s"
  "observing (onMutation d m s) = observing s"
  "dispatched (onMutation d m s) = dispatched s"
  "settings (onMutation d m s) = settings s"
  "keyBindings (onMutation d m s) = keyBindings s"
  "mediaElements (onMutation d m s) = mediaElements s"
  "setSpeedCalls (onMutation d m s) = setSpeedCalls s"
  by (simp_all add: onMutation_def Let_def)

lemma remove_frame [simp]:
  "nextId (remove c s) = nextId s"
  "nodeType (remove c s) = nodeType s"
  "classList (remove c s) = classList s"
  "shadowSpeed (remove c s) = shadowSpeed s"
  "currentSrc (remove c s) = currentSrc s"
  "src (remove c s) = src s"
  "playbackRate (remove c s) = playbackRate s"
  "dispatched (remove c s) = dispatched s"
  "settings (remove c s) = settings s"
  "keyBindings (remove c s) = keyBindings s"
  "setSpeedCalls (remove c s) = setSpeedCalls s"
  by (simp_all add: remove_def Let_def)


subsection \<open>What each operation changes\<close>

lemma logLine_logged [simp]: "logged (logLine m s) = logged s @ [m]"
  by (simp add: logLine_def)

lemma createNode_fst [simp]: "fst (createNode ty s) = nextId s"
  by (simp add: createNode_def Let_def)

lemma createNode_changed [simp]:
  "nextId (snd (createNode ty s)) = Suc (nextId s)"
  "nodeType (snd (createNode ty s)) = (nodeType s)(nextId s := ty)"
  "parentNode (snd (createNode ty s)) = (parentNode s)(nextId s := None)"
  "childNodes (snd (createNode ty s)) = (childNodes s)(nextId s := [])"
  "classList (snd (createNode ty s)) = (classList s)(nextId s := [])"
  by (simp_all add: createNode_def Let_def)

lemma classListAdd_classList [simp]:
  "classList (classListAdd n c s) =
     (classList s)(n := (if c \<in> set (classList s n) then classList s n else classList s n @ [c]))"
  by (auto simp: classListAdd_def)

lemma classListRemove_classList [simp]:
  "classList (classListRemove n c s) = (classList s)(n := removeAll c (classList s n))"
  by (simp add: classListRemove_def)

lemma appendChild_changed [simp]:
  "childNodes (appendChild p c s) = (childNodes s)(p := childNodes s p @ [c])"
  "parentNode (appendChild p c s) = (parentNode s)(c \<mapsto> p)"
  by (simp_all add: appendChild_def)

lemma listeners_changed [simp]:
  "listeners (addEventListener n ty h s) =
     (listeners s)(n := (if (ty, h) \<in> set (listeners s n) then listeners s n
                         else listeners s n @ [(ty, h)]))"
  "listeners (removeEventListener n ty h s) = (listeners s)(n := removeAll (ty, h) (listeners s n))"
  by (auto simp: addEventListener_def removeEventListener_def)

lemma registry_changed [simp]:
  "dispatched (dispatchEvent n ev s) = dispatched s @ [(n, ev)]"
  "observing (observe ob n s) = observing s @ [(ob, n)]"
  "observing (disconnect ob s) = filter (\<lambda>p. fst p \<noteq> ob) (observing s)"
  "mediaElements (addMediaElement n s) =
     (if n \<in> set (mediaElements s) then mediaElements s else mediaElements s @ [n])"
  "mediaElements (removeMediaElement n s) = removeAll n (mediaElements s)"
  "keyBindings (setKeyBinding a v s) = (keyBindings s)(a := v)"
  by (simp_all add: dispatchEvent_def observe_def disconnect_def addMediaElement_def
        removeMediaElement_def setKeyBinding_def)

subsection \<open>The initial speed\<close>

lemma storedVideoSpeed_nonzero: "storedVideoSpeed E v s \<noteq> 0"
  by (simp add: storedVideoSpeed_def orElse_def Let_def split: option.splits)

lemma resolveSpeed_fst:
  "fst (resolveSpeed E v s) = (if rememberSpeed (settings s) then storedVideoSpeed E v s else 1)"
  by (simp add: resolveSpeed_def Let_def split_def storedVideoSpeed_nonzero)

lemma resolveSpeed_addMediaElement:
  "fst (resolveSpeed E v (addMediaElement n s)) = fst (resolveSpeed E v s)"
  by (simp add: resolveSpeed_fst storedVideoSpeed_def)

lemma initializeSpeed_playbackRate:
  "playbackRate (initializeSpeed E v s) =
     (if forceLastSavedSpeed (settings s) \<and> fst (resolveSpeed E v s) \<noteq> 1 then playbackRate s
      else (playbackRate s)(v := fst (resolveSpeed E v s)))"
  by (simp add: initializeSpeed_def Let_def split_def)

lemma initializeSpeed_dispatched:
  "dispatched (initializeSpeed E v s) =
     (if forceLastSavedSpeed (settings s) \<and> fst (resolveSpeed E v s) \<noteq> 1
      then dispatched s @ [(v, \<lparr>evType = ''ratechange'', bubbles = True, composed = True,
                                origin = ''videoSpeed'',
                                speed = toFixed1 (fst (resolveSpeed E v s))\<rparr>)]
      else dispatched s)"
  by (simp add: initializeSpeed_def Let_def split_def)

lemma toFixed1_two: "toFixed1 2 = ''2.0''"
  by code_simp

text \<open>
  C1 (the code departs from the claim). With speeds remembered, the claim has
  the initial rate fall back to the last-used rate when nothing is stored for
  the source. In \<open>initializeSpeed\<close> the stored rate is read with \<^verbatim>\<open>|| 1.0\<close>, so it
  is never falsy and the branch that reads \<^verbatim>\<open>lastSpeed\<close> is never taken: on the
  page with a last-used rate of 2 and nothing stored, the resolved rate and the
  playback rate applied are 1; and in every state the resolved rate is the same
  whatever the last-used rate is.
\<close>

theorem initializeSpeed_lastSpeed_unused:
  "fst (resolveSpeed siteEnv 2 lastSpeedPage) = 1 \<and>
   playbackRate (initializeSpeed siteEnv 2 lastSpeedPage) 2 = 1 \<and>
   fst (resolveSpeed E v (s\<lparr>settings := (settings s)\<lparr>lastSpeed := l\<rparr>\<rparr>)) = fst (resolveSpeed E v s)"
proof (intro conjI)
  have st: "storedVideoSpeed siteEnv 2 lastSpeedPage = 1"
    by (simp add: storedVideoSpeed_def lastSpeedPage_def pageState_def siteEnv_def orElse_def)
  show t: "fst (resolveSpeed siteEnv 2 lastSpeedPage) = 1"
    by (simp add: resolveSpeed_fst st)
  show "playbackRate (initializeSpeed siteEnv 2 lastSpeedPage) 2 = 1"
    by (simp add: initializeSpeed_playbackRate t)
  show "fst (resolveSpeed E v (s\<lparr>settings := (settings s)\<lparr>lastSpeed := l\<rparr>\<rparr>)) = fst (resolveSpeed E v s)"
    by (simp add: resolveSpeed_fst storedVideoSpeed_def)
qed

subsection \<open>The constructor\<close>

lemma create_existing: "vsc s e = Some c \<Longrightarrow> create E e p s = (Return c, s)"
  by (simp add: create_def)

lemma create_new:
  "vsc s e = None \<Longrightarrow>
   create E e p s =
     (let r = initializeControls E (thisParentOf s e p) e (initializeSpeed E e (addMediaElement e s))
      in case fst r of
           Throw err \<Rightarrow> (Throw err, snd r)
         | Return w \<Rightarrow>
             (let hs = setupEventHandlers e (snd r);
                  ob = setupMutationObserver e (snd hs);
                  c = \<lparr>video = e, parent = thisParentOf s e p, divE = w,
                       handlePlay = fst (fst hs), handleSeek = snd (fst hs),
                       targetObserver = fst ob\<rparr>
              in (Return c, logLine InfoInitialized ((snd ob)\<lparr>vsc := (vsc (snd ob))(e \<mapsto> c)\<rparr>))))"
  by (simp add: create_def Let_def split_def split: outcome.splits)

lemma create_frame:
  assumes "vsc s e = None"
  shows "currentSrc (snd (create E e p s)) = currentSrc s"
    and "src (snd (create E e p s)) = src s"
    and "settings (snd (create E e p s)) = settings s"
    and "setSpeedCalls (snd (create E e p s)) = setSpeedCalls s"
    and "playbackRate (snd (create E e p s)) = playbackRate (initializeSpeed E e (addMediaElement e s))"
    and "dispatched (snd (create E e p s)) = dispatched (initializeSpeed E e (addMediaElement e s))"
    and "keyBindings (snd (create E e p s)) = keyBindings (initializeSpeed E e (addMediaElement e s))"
  using assms by (simp_all add: create_new Let_def split: outcome.splits)

lemma create_sets_vsc:
  "vsc s e = None \<Longrightarrow> create E e p s = (Return c, s') \<Longrightarrow> vsc s' e = Some c"
  by (auto simp: create_new Let_def split: outcome.splits)

lemma create_video:
  "vsc s e = None \<Longrightarrow> create E e p s = (Return c, s') \<Longrightarrow> video c = e"
  by (auto simp: create_new Let_def split: outcome.splits)

text \<open>
  C4. Calling the constructor for an element that has a controller returns that
  controller and leaves the whole state as it is: no registry addition, no
  overlay, no listener, no observer, no log line. So a second call after a
  first one that returned gives the same controller and changes nothing.
\<close>

theorem create_idempotent:
  "(vsc s0 e = Some c \<longrightarrow> create E e p0 s0 = (Return c, s0)) \<and>
   (create E e p s = (Return c, s') \<longrightarrow> create E e p' s' = (Return c, s'))"
proof (intro conjI impI)
  assume "vsc s0 e = Some c"
  then show "create E e p0 s0 = (Return c, s0)" by (rule create_existing)
next
  assume r: "create E e p s = (Return c, s')"
  show "create E e p' s' = (Return c, s')"
  proof (cases "vsc s e")
    case None
    from create_sets_vsc [OF None r] show ?thesis by (rule create_existing)
  next
    case (Some c0)
    with r have "c0 = c" "s' = s" by (simp_all add: create_def)
    with Some show ?thesis by (simp add: create_existing)
  qed
qed

text \<open>
  C6. With the force flag set and a resolved rate other than 1, \<open>initializeSpeed\<close>
  leaves the playback rate alone and dispatches one \<^verbatim>\<open>ratechange\<close> event whose
  detail carries the rate formatted with \<^verbatim>\<open>toFixed(1)\<close>; otherwise it assigns the
  rate and dispatches nothing. The rest of the constructor touches neither the
  playback rate nor the dispatched events. A rate of 2 is formatted as "2.0".
\<close>

theorem initializeSpeed_force_dispatch:
  "playbackRate (initializeSpeed E e s) =
     (if forceLastSavedSpeed (settings s) \<and> fst (resolveSpeed E e s) \<noteq> 1 then playbackRate s
      else (playbackRate s)(e := fst (resolveSpeed E e s))) \<and>
   dispatched (initializeSpeed E e s) =
     (if forceLastSavedSpeed (settings s) \<and> fst (resolveSpeed E e s) \<noteq> 1
      then dispatched s @ [(e, \<lparr>evType = ''ratechange'', bubbles = True, composed = True,
                                origin = ''videoSpeed'',
                                speed = toFixed1 (fst (resolveSpeed E e s))\<rparr>)]
      else dispatched s) \<and>
   (vsc s e = None \<longrightarrow>
      playbackRate (snd (create E e p s)) = playbackRate (initializeSpeed E e s) \<and>
      dispatched (snd (create E e p s)) = dispatched (initializeSpeed E e s)) \<and>
   toFixed1 2 = ''2.0''"
  by (simp add: initializeSpeed_playbackRate initializeSpeed_dispatched create_frame
        resolveSpeed_addMediaElement toFixed1_two)

theorem initializeSpeed_force_dispatch_witness:
  "forceLastSavedSpeed (settings forcedPage) \<and> fst (resolveSpeed siteEnv 2 forcedPage) = 2 \<and>
   vsc forcedPage 2 = None \<and>
   playbackRate (snd (create siteEnv 2 None forcedPage)) = playbackRate forcedPage \<and>
   dispatched (snd (create siteEnv 2 None forcedPage)) =
     [(2, \<lparr>evType = ''ratechange'', bubbles = True, composed = True,
            origin = ''videoSpeed'', speed = ''2.0''\<rparr>)]"
proof -
  have f: "forceLastSavedSpeed (settings forcedPage)" "vsc forcedPage 2 = None"
    "dispatched forcedPage = []"
    by (simp_all add: forcedPage_def pageState_def)
  have t: "fst (resolveSpeed siteEnv 2 forcedPage) = 2"
    by (simp add: resolveSpeed_fst storedVideoSpeed_def forcedPage_def pageState_def
          siteEnv_def orElse_def)
  from initializeSpeed_force_dispatch [of siteEnv 2 forcedPage None] f t
  show ?thesis by simp
qed

subsection \<open>Inserting the overlay\<close>

lemma insertIntoDOM_missing:
  "insertionPoint (getControllerPosition E par v) = None \<Longrightarrow>
   fst (insertIntoDOM E par v w s) = Throw TypeError"
  by (simp add: insertIntoDOM_def Let_def split_def)

lemma insertIntoDOM_detached:
  assumes "insertionMethod (getControllerPosition E par v) = ''beforeParent''
           \<or> insertionMethod (getControllerPosition E par v) = ''afterParent''"
    and "insertionPoint (getControllerPosition E par v) = Some ip"
    and "parentNode s ip = None" and "ip \<noteq> w" and "ip \<noteq> nextId s"
  shows "fst (insertIntoDOM E par v w s) = Throw TypeError"
  using assms by (auto simp: insertIntoDOM_def Let_def split_def parentElement_def)

lemma insertIntoDOM_firstChild:
  assumes "insertionMethod (getControllerPosition E par v) \<noteq> ''beforeParent''"
    and "insertionMethod (getControllerPosition E par v) \<noteq> ''afterParent''"
    and "insertionPoint (getControllerPosition E par v) = Some ip"
    and "nodeType s ip = 1" and "ip \<noteq> w" and "ip \<noteq> nextId s"
  shows "fst (insertIntoDOM E par v w s) = Return ()"
  using assms
  by (simp add: insertIntoDOM_def Let_def split_def insertBefore_def firstChild_def
           split: list.splits)

lemma insertIntoDOM_classList:
  "classList (snd (insertIntoDOM E par v w s)) = (classList s)(nextId s := [])"
  by (simp add: insertIntoDOM_def Let_def split_def split: option.splits outcome.splits)

lemma insertIntoDOM_nextId:
  "nextId (snd (insertIntoDOM E par v w s)) = Suc (nextId s)"
  by (simp add: insertIntoDOM_def Let_def split_def split: option.splits outcome.splits)

lemma insertBefore_throw:
  "fst (insertBefore q frag ref s) = Throw err \<Longrightarrow> snd (insertBefore q frag ref s) = s"
  by (auto simp: insertBefore_def Let_def split: if_splits)

lemma insertIntoDOM_throw_tree:
  assumes "fst (insertIntoDOM E par v w s) = Throw err"
  shows "childNodes (snd (insertIntoDOM E par v w s)) = (childNodes s)(nextId s := [w])"
    and "parentNode (snd (insertIntoDOM E par v w s))
           = (parentNode s)(nextId s := None, w \<mapsto> nextId s)"
    and "logged (snd (insertIntoDOM E par v w s)) = logged s"
  using assms
  by (auto simp: insertIntoDOM_def Let_def split_def insertBefore_throw
           split: option.splits outcome.splits if_splits)

lemma initializeControls_wrapped:
  "initializeControls E par v s =
     (case fst (insertIntoDOM E par v (nextId s) (wrapped v s)) of
        Throw err \<Rightarrow> (Throw err, snd (insertIntoDOM E par v (nextId s) (wrapped v s)))
      | Return u \<Rightarrow>
          (Return (nextId s),
           logLine DebugControlsEnd (snd (insertIntoDOM E par v (nextId s) (wrapped v s)))))"
  by (simp add: initializeControls_def wrapped_def Let_def split_def split: outcome.splits)

lemma wrapped_simps [simp]:
  "nextId (wrapped v s) = Suc (nextId s)"
  "nodeType (wrapped v s) = (nodeType s)(nextId s := 1)"
  "parentNode (wrapped v s) = (parentNode s)(nextId s := None)"
  "childNodes (wrapped v s) = (childNodes s)(nextId s := [])"
  "logged (wrapped v s)
     = logged s @ [DebugControlsBegin, DebugSpeedVariable (toFixed1 (playbackRate s v))]"
  "vsc (wrapped v s) = vsc s"
  "listeners (wrapped v s) = listeners s"
  "observing (wrapped v s) = observing s"
  by (simp_all add: wrapped_def Let_def)

lemma wrapped_classList:
  "classList (wrapped v s) (nextId s) =
     [''vsc-controller''] @ (if currentSrc s v = [] then [''vsc-nosource''] else [])
       @ [if startHidden (settings s) then ''vsc-hidden'' else ''vcs-show'']"
  by (simp add: wrapped_def Let_def)

lemma initializeControls_fst_Return:
  "fst (initializeControls E par v s) = Return w \<Longrightarrow> w = nextId s"
  by (simp add: initializeControls_wrapped split: outcome.splits)

lemma initializeControls_classList:
  "classList (snd (initializeControls E par v s)) (nextId s) = classList (wrapped v s) (nextId s)"
  by (simp add: initializeControls_wrapped insertIntoDOM_classList split: outcome.splits)

lemma initializeControls_throws:
  assumes "fst (insertIntoDOM E par v (nextId s) (wrapped v s)) = Throw err"
  shows "fst (initializeControls E par v s) = Throw err"
    and "childNodes (snd (initializeControls E par v s))
           = (childNodes s)(nextId s := [], Suc (nextId s) := [nextId s])"
    and "parentNode (snd (initializeControls E par v s))
           = (parentNode s)(Suc (nextId s) := None, nextId s \<mapsto> Suc (nextId s))"
    and "logged (snd (initializeControls E par v s))
           = logged s @ [DebugControlsBegin, DebugSpeedVariable (toFixed1 (playbackRate s v))]"
  using assms by (simp_all add: initializeControls_wrapped insertIntoDOM_throw_tree)

lemma prepared_simps [simp]:
  "nextId (initializeSpeed E e (addMediaElement e s)) = nextId s"
  "nodeType (initializeSpeed E e (addMediaElement e s)) = nodeType s"
  "parentNode (initializeSpeed E e (addMediaElement e s)) = parentNode s"
  "childNodes (initializeSpeed E e (addMediaElement e s)) = childNodes s"
  "currentSrc (initializeSpeed E e (addMediaElement e s)) = currentSrc s"
  "settings (initializeSpeed E e (addMediaElement e s)) = settings s"
  "vsc (initializeSpeed E e (addMediaElement e s)) = vsc s"
  "listeners (initializeSpeed E e (addMediaElement e s)) = listeners s"
  "observing (initializeSpeed E e (addMediaElement e s)) = observing s"
  by simp_all

lemma create_throws:
  assumes "vsc s e = None"
    and "fst (insertIntoDOM E (thisParentOf s e p) e (nextId s)
               (wrapped e (initializeSpeed E e (addMediaElement e s)))) = Throw err"
  shows "fst (create E e p s) = Throw err"
    and "vsc (snd (create E e p s)) = vsc s"
    and "listeners (snd (create E e p s)) = listeners s"
    and "observing (snd (create E e p s)) = observing s"
    and "childNodes (snd (create E e p s))
           = (childNodes s)(nextId s := [], Suc (nextId s) := [nextId s])"
    and "parentNode (snd (create E e p s))
           = (parentNode s)(Suc (nextId s) := None, nextId s \<mapsto> Suc (nextId s))"
    and "logged (snd (create E e p s)) =
           logged (initializeSpeed E e (addMediaElement e s))
           @ [DebugControlsBegin,
              DebugSpeedVariable
                (toFixed1 (playbackRate (initializeSpeed E e (addMediaElement e s)) e))]"
proof -
  let ?s2 = "initializeSpeed E e (addMediaElement e s)"
  have a: "fst (insertIntoDOM E (thisParentOf s e p) e (nextId ?s2) (wrapped e ?s2)) = Throw err"
    using assms(2) by simp
  note t = initializeControls_throws [OF a]
  show "fst (create E e p s) = Throw err" "vsc (snd (create E e p s)) = vsc s"
    "listeners (snd (create E e p s)) = listeners s"
    "observing (snd (create E e p s)) = observing s"
    "childNodes (snd (create E e p s))
       = (childNodes s)(nextId s := [], Suc (nextId s) := [nextId s])"
    "parentNode (snd (create E e p s))
       = (parentNode s)(Suc (nextId s) := None, nextId s \<mapsto> Suc (nextId s))"
    "logged (snd (create E e p s)) =
       logged ?s2 @ [DebugControlsBegin, DebugSpeedVariable (toFixed1 (playbackRate ?s2 e))]"
    using assms(1) t by (simp_all add: create_new Let_def)
qed

lemma create_returns:
  assumes "vsc s e = None"
    and "insertionMethod (getControllerPosition E (thisParentOf s e p) e) \<noteq> ''beforeParent''"
    and "insertionMethod (getControllerPosition E (thisParentOf s e p) e) \<noteq> ''afterParent''"
    and "insertionPoint (getControllerPosition E (thisParentOf s e p) e) = Some ip"
    and "nodeType s ip = 1" and "ip < nextId s"
  shows "fst (create E e p s) =
           Return \<lparr>video = e, parent = thisParentOf s e p, divE = nextId s,
                   handlePlay = nextId s + 2, handleSeek = nextId s + 3,
                   targetObserver = nextId s + 4\<rparr>"
proof -
  let ?s2 = "initializeSpeed E e (addMediaElement e s)"
  have "fst (insertIntoDOM E (thisParentOf s e p) e (nextId ?s2) (wrapped e ?s2)) = Return ()"
    using assms by (intro insertIntoDOM_firstChild [where ip = ip]) simp_all
  then have "fst (initializeControls E (thisParentOf s e p) e ?s2) = Return (nextId s)"
    by (simp add: initializeControls_wrapped)
  moreover have "nextId (snd (initializeControls E (thisParentOf s e p) e ?s2)) = Suc (Suc (nextId s))"
    by (simp add: initializeControls_wrapped insertIntoDOM_nextId split: outcome.splits)
  ultimately show ?thesis
    using assms(1)
    by (simp add: create_new Let_def setupEventHandlers_def setupMutationObserver_def)
qed

lemma create_classList:
  assumes "vsc s e = None" and "create E e p s = (Return c, s')"
  shows "divE c = nextId s"
    and "classList s' (divE c) =
          [''vsc-controller''] @ (if currentSrc s e = [] then [''vsc-nosource''] else [])
           @ [if startHidden (settings s) then ''vsc-hidden'' else ''vcs-show'']"
proof -
  let ?s2 = "initializeSpeed E e (addMediaElement e s)"
  let ?r = "initializeControls E (thisParentOf s e p) e ?s2"
  from assms obtain w where w: "fst ?r = Return w"
    by (auto simp: create_new Let_def split: outcome.splits)
  then have wn: "w = nextId s" using initializeControls_fst_Return [OF w] by simp
  from assms w show d: "divE c = nextId s"
    by (auto simp: create_new Let_def wn)
  have "classList s' (nextId s) = classList (snd ?r) (nextId ?s2)"
    using assms w by (auto simp: create_new Let_def)
  also have "\<dots> = classList (wrapped e ?s2) (nextId ?s2)"
    by (rule initializeControls_classList)
  finally show "classList s' (divE c) =
          [''vsc-controller''] @ (if currentSrc s e = [] then [''vsc-nosource''] else [])
           @ [if startHidden (settings s) then ''vsc-hidden'' else ''vcs-show'']"
    using d wrapped_classList [of e ?s2] by simp
qed

lemma create_listeners:
  assumes "vsc s e = None" and "fst (create E e p s) = Return c" and "listeners s e = []"
  shows "listeners (snd (create E e p s)) e = [(''play'', handlePlay c), (''seeked'', handleSeek c)]"
  using assms
  by (auto simp: create_new Let_def setupEventHandlers_def split: outcome.splits)

text \<open>The constructor on the example pages: every page that agrees with
  \<open>pageState\<close> on the tree gets the controller \<open>pageController\<close>.\<close>

lemma create_on_page:
  assumes "vsc s 2 = None" and "nextId s = 3" and "nodeType s 1 = 1" and "parentNode s 2 = Some 1"
  shows "fst (create siteEnv 2 p s) = Return pageController"
proof -
  have pe: "parentElement s 2 = Some 1" using assms by (simp add: parentElement_def)
  show ?thesis
    using create_returns [of s 2 siteEnv p 1] assms pe
    by (simp add: siteEnv_def pageController_def)
qed

theorem create_idempotent_witness:
  "vsc (snd (create siteEnv 2 None pageState)) 2 = Some pageController \<and>
   create siteEnv 2 None pageState = (Return pageController, snd (create siteEnv 2 None pageState)) \<and>
   create siteEnv 2 (Some 0) (snd (create siteEnv 2 None pageState))
     = (Return pageController, snd (create siteEnv 2 None pageState))"
proof -
  let ?s1 = "snd (create siteEnv 2 None pageState)"
  have v: "vsc pageState 2 = None" by (simp add: pageState_def)
  have "fst (create siteEnv 2 None pageState) = Return pageController"
    by (rule create_on_page) (simp_all add: pageState_def)
  then have r: "create siteEnv 2 None pageState = (Return pageController, ?s1)"
    by (simp add: prod_eq_iff)
  have w: "vsc ?s1 2 = Some pageController" by (rule create_sets_vsc [OF v r])
  from create_idempotent [of ?s1 2 pageController siteEnv "Some 0" None pageState ?s1 "Some 0"] w r
  show ?thesis by simp
qed

text \<open>
  C2 as stated fails: the constructor does not catch the failure. On the page
  whose site handler gives no insertion point, \<open>create\<close> throws a \<^verbatim>\<open>TypeError\<close>
  out of the constructor, and the log ends before \<open>initializeControls\<close> has
  finished.
\<close>

theorem create_missing_anchor_counterexample:
  "vsc pageState 2 = None \<and>
   insertionPoint (getControllerPosition noAnchorEnv (Some 1) 2) = None \<and>
   fst (create noAnchorEnv 2 None pageState) = Throw TypeError \<and>
   logged (snd (create noAnchorEnv 2 None pageState))
     = [DebugUsingStored 1, DebugSettingInitial 1, DebugControlsBegin, DebugSpeedVariable ''1.0'']"
proof -
  have v: "vsc pageState 2 = None" by (simp add: pageState_def)
  have pe: "parentElement pageState 2 = Some 1" by (simp add: parentElement_def pageState_def)
  have i: "fst (insertIntoDOM noAnchorEnv (thisParentOf pageState 2 None) 2 (nextId pageState)
             (wrapped 2 (initializeSpeed noAnchorEnv 2 (addMediaElement 2 pageState))))
           = Throw TypeError"
    by (rule insertIntoDOM_missing) (simp add: pe noAnchorEnv_def)
  have l: "logged (initializeSpeed noAnchorEnv 2 (addMediaElement 2 pageState))
           = [DebugUsingStored 1, DebugSettingInitial 1]"
    by (simp add: initializeSpeed_def resolveSpeed_def storedVideoSpeed_def orElse_def Let_def
          split_def pageState_def noAnchorEnv_def addMediaElement_def)
  have t: "fst (resolveSpeed noAnchorEnv 2 (addMediaElement 2 pageState)) = 1"
    by (simp add: resolveSpeed_fst storedVideoSpeed_def orElse_def pageState_def noAnchorEnv_def)
  have r: "playbackRate (initializeSpeed noAnchorEnv 2 (addMediaElement 2 pageState)) 2 = 1"
    by (simp add: initializeSpeed_playbackRate t)
  have one: "toFixed1 1 = ''1.0''" by code_simp
  show ?thesis
    using create_throws(1,7) [OF v i] v l r one by (simp add: noAnchorEnv_def)
qed

text \<open>
  C2, amended. When the insertion point is missing, or has no parent under the
  directives that insert before or after it, the constructor throws a
  \<^verbatim>\<open>TypeError\<close> (it is neither caught nor logged there). The failure stays with
  the element: no node that existed changes its parent or its children, no
  controller is attached to any element, no listener and no observer is
  registered, and the log ends with the two lines of \<open>initializeControls\<close> that
  precede the insertion.
\<close>

theorem create_insertion_failure:
  assumes "vsc s e = None"
    and "pos = getControllerPosition E (case parentElement s e of Some q \<Rightarrow> Some q | None \<Rightarrow> p) e"
    and "insertionPoint pos = None \<or>
         ((insertionMethod pos = ''beforeParent'' \<or> insertionMethod pos = ''afterParent'') \<and>
          (\<exists>ip. insertionPoint pos = Some ip \<and> ip < nextId s \<and> parentNode s ip = None))"
  shows "fst (create E e p s) = Throw TypeError \<and>
         vsc (snd (create E e p s)) = vsc s \<and>
         listeners (snd (create E e p s)) = listeners s \<and>
         observing (snd (create E e p s)) = observing s \<and>
         (\<forall>n. n < nextId s \<longrightarrow>
            childNodes (snd (create E e p s)) n = childNodes s n \<and>
            parentNode (snd (create E e p s)) n = parentNode s n) \<and>
         logged (snd (create E e p s)) =
           logged (initializeSpeed E e (addMediaElement e s))
           @ [DebugControlsBegin,
              DebugSpeedVariable
                (toFixed1 (playbackRate (initializeSpeed E e (addMediaElement e s)) e))]"
proof -
  let ?s2 = "initializeSpeed E e (addMediaElement e s)"
  have i: "fst (insertIntoDOM E (thisParentOf s e p) e (nextId s) (wrapped e ?s2)) = Throw TypeError"
    using assms(3)
  proof
    assume "insertionPoint pos = None"
    then show ?thesis using assms(2) by (intro insertIntoDOM_missing) simp
  next
    assume "(insertionMethod pos = ''beforeParent'' \<or> insertionMethod pos = ''afterParent'') \<and>
          (\<exists>ip. insertionPoint pos = Some ip \<and> ip < nextId s \<and> parentNode s ip = None)"
    then obtain ip
      where m: "insertionMethod pos = ''beforeParent'' \<or> insertionMethod pos = ''afterParent''"
        and ip: "insertionPoint pos = Some ip" "ip < nextId s" "parentNode s ip = None"
      by blast
    show ?thesis
      using m ip assms(2) by (intro insertIntoDOM_detached [where ip = ip]) auto
  qed
  from create_throws [OF assms(1) i] show ?thesis by simp
qed

theorem create_insertion_failure_witness:
  "vsc pageState 2 = None \<and>
   getControllerPosition staleAnchorEnv (Some 1) 2
     = \<lparr>insertionPoint = Some 0, insertionMethod = ''beforeParent'', targetParent = Some 1\<rparr> \<and>
   parentNode pageState 0 = None \<and>
   fst (create staleAnchorEnv 2 None pageState) = Throw TypeError \<and>
   vsc (snd (create staleAnchorEnv 2 None pageState)) 2 = None \<and>
   childNodes (snd (create staleAnchorEnv 2 None pageState)) 1 = [2] \<and>
   parentNode (snd (create staleAnchorEnv 2 None pageState)) 2 = Some 1"
proof -
  have v: "vsc pageState 2 = None" "parentNode pageState 0 = None" "nextId pageState = 3"
    "childNodes pageState 1 = [2]" "parentNode pageState 2 = Some 1"
    by (simp_all add: pageState_def)
  have pe: "parentElement pageState 2 = Some 1" by (simp add: parentElement_def pageState_def)
  have g: "getControllerPosition staleAnchorEnv (Some 1) 2
     = \<lparr>insertionPoint = Some 0, insertionMethod = ''beforeParent'', targetParent = Some 1\<rparr>"
    by (simp add: staleAnchorEnv_def)
  have "fst (create staleAnchorEnv 2 None pageState) = Throw TypeError \<and>
         vsc (snd (create staleAnchorEnv 2 None pageState)) = vsc pageState \<and>
         listeners (snd (create staleAnchorEnv 2 None pageState)) = listeners pageState \<and>
         observing (snd (create staleAnchorEnv 2 None pageState)) = observing pageState \<and>
         (\<forall>n. n < nextId pageState \<longrightarrow>
            childNodes (snd (create staleAnchorEnv 2 None pageState)) n = childNodes pageState n \<and>
            parentNode (snd (create staleAnchorEnv 2 None pageState)) n = parentNode pageState n) \<and>
         logged (snd (create staleAnchorEnv 2 None pageState)) =
           logged (initializeSpeed staleAnchorEnv 2 (addMediaElement 2 pageState))
           @ [DebugControlsBegin,
              DebugSpeedVariable
                (toFixed1 (playbackRate (initializeSpeed staleAnchorEnv 2 (addMediaElement 2 pageState)) 2))]"
    by (rule create_insertion_failure
          [where pos = "\<lparr>insertionPoint = Some 0, insertionMethod = ''beforeParent'',
                          targetParent = Some 1\<rparr>"
             and p = None])
       (simp_all add: v pe staleAnchorEnv_def)
  then show ?thesis using v g by simp
qed

text \<open>
  C10. The constructor decides the initial "no source" class from
  \<^verbatim>\<open>currentSrc\<close> alone: for an element whose current source is empty and whose
  \<^verbatim>\<open>src\<close> is not, a constructor call that returns leaves the class
  \<^verbatim>\<open>vsc-nosource\<close> on the wrapper, whereas the callback of the source observer, run
  in that very state, takes it away (it sets the class only when both are
  empty).
\<close>

theorem create_nosource_from_currentSrc:
  "vsc s e = None \<and> currentSrc s e = [] \<and> src s e \<noteq> [] \<and> create E e p s = (Return c, s') \<longrightarrow>
     ''vsc-nosource'' \<in> set (classList s' (divE c)) \<and>
     ''vsc-nosource'' \<notin> set (classList
        (onMutation (divE c) \<lparr>mtype = ''attributes'', attributeName = ''src'', mtarget = e\<rparr> s')
        (divE c))"
proof (intro impI, elim conjE)
  assume a: "vsc s e = None" "currentSrc s e = []" "src s e \<noteq> []" "create E e p s = (Return c, s')"
  have s': "s' = snd (create E e p s)" using a(4) by simp
  have "src s' e \<noteq> []" using a(1,3) by (simp add: s' create_frame)
  then have "''vsc-nosource'' \<notin> set (classList
        (onMutation (divE c) \<lparr>mtype = ''attributes'', attributeName = ''src'', mtarget = e\<rparr> s')
        (divE c))"
    by (simp add: onMutation_def Let_def)
  moreover have "''vsc-nosource'' \<in> set (classList s' (divE c))"
    using create_classList(2) [OF a(1) a(4)] a(2) by simp
  ultimately show "''vsc-nosource'' \<in> set (classList s' (divE c)) \<and>
     ''vsc-nosource'' \<notin> set (classList
        (onMutation (divE c) \<lparr>mtype = ''attributes'', attributeName = ''src'', mtarget = e\<rparr> s')
        (divE c))" by simp
qed

theorem create_nosource_from_currentSrc_witness:
  "vsc attributePage 2 = None \<and> currentSrc attributePage 2 = [] \<and> src attributePage 2 = ''a'' \<and>
   fst (create siteEnv 2 None attributePage) = Return pageController \<and>
   ''vsc-nosource'' \<in> set (classList (snd (create siteEnv 2 None attributePage)) 3) \<and>
   ''vsc-nosource'' \<notin> set (classList
        (onMutation 3 \<lparr>mtype = ''attributes'', attributeName = ''src'', mtarget = 2\<rparr>
           (snd (create siteEnv 2 None attributePage))) 3)"
proof -
  have v: "vsc attributePage 2 = None" "currentSrc attributePage 2 = []"
    "src attributePage 2 = ''a''"
    by (simp_all add: attributePage_def pageState_def)
  have a: "fst (create siteEnv 2 None attributePage) = Return pageController"
    by (rule create_on_page) (simp_all add: attributePage_def pageState_def)
  then have r: "create siteEnv 2 None attributePage
                 = (Return pageController, snd (create siteEnv 2 None attributePage))"
    by (simp add: prod_eq_iff)
  have d: "divE pageController = 3" by (simp add: pageController_def)
  from create_nosource_from_currentSrc
         [of attributePage 2 siteEnv None pageController "snd (create siteEnv 2 None attributePage)"]
    v r a d
  show ?thesis by simp
qed

subsection \<open>Play and seek\<close>

lemma mediaEventAction_calls:
  "setSpeedCalls (mediaEventAction E t s) =
     setSpeedCalls s @ [(t, orElse (speeds (settings s) (getBaseURL E (currentSrc s t))) 1)]"
  by (simp add: mediaEventAction_def Let_def split_def orElse_def split: option.splits)

lemma mediaEventAction_reset:
  "\<not> rememberSpeed (settings s) \<Longrightarrow>
   keyBindings (mediaEventAction E t s) ''reset'' = keyBindings s ''fast''"
  by (simp add: mediaEventAction_def Let_def split_def getKeyBinding_def)

text \<open>
  C3 as stated fails: with speeds not remembered, the handler does not force
  the value to 1. On the page with a stored speed of 1.75 for the source of the
  video, it calls \<^verbatim>\<open>setSpeed\<close> with 1.75.
\<close>

theorem mediaEventAction_forces_one_counterexample:
  "\<not> rememberSpeed (settings sessionPage) \<and>
   speeds (settings sessionPage) (getBaseURL siteEnv (currentSrc sessionPage 2)) = Some (7 / 4) \<and>
   setSpeedCalls (mediaEventAction siteEnv 2 sessionPage) = [(2, 7 / 4)]"
  by (simp add: mediaEventAction_calls sessionPage_def pageState_def siteEnv_def orElse_def)

text \<open>
  C3, amended. With speeds not remembered, the handler of a play or seek
  notification calls \<^verbatim>\<open>setSpeed\<close> once, with the rate stored for the normalized
  current source when there is one (and it is not zero), and with 1 otherwise;
  and it sets the reset key binding to the fast rate, on every such event. An
  event of a type with one registered handler runs the handler once. With
  nothing stored for the source the value is 1, remembered or not.
\<close>

theorem mediaEventAction_remember_disabled:
  "(\<not> rememberSpeed (settings s) \<longrightarrow>
     setSpeedCalls (mediaEventAction E t s) =
       setSpeedCalls s @ [(t, orElse (speeds (settings s) (getBaseURL E (currentSrc s t))) 1)] \<and>
     keyBindings (mediaEventAction E t s) ''reset'' = keyBindings s ''fast'' \<and>
     (filter (\<lambda>q. fst q = ty) (listeners s t) = [h] \<longrightarrow>
        deliver E ty t s = mediaEventAction E t s)) \<and>
   (speeds (settings s0) (getBaseURL E (currentSrc s0 t)) = None \<longrightarrow>
      setSpeedCalls (mediaEventAction E t s0) = setSpeedCalls s0 @ [(t, 1)])"
  by (simp add: mediaEventAction_calls mediaEventAction_reset deliver_def orElse_def)

theorem mediaEventAction_remember_disabled_witness:
  "\<not> rememberSpeed (settings (snd (create siteEnv 2 None sessionPage))) \<and>
   listeners (snd (create siteEnv 2 None sessionPage)) 2 = [(''play'', 5), (''seeked'', 6)] \<and>
   setSpeedCalls (deliver siteEnv ''play'' 2 (snd (create siteEnv 2 None sessionPage))) = [(2, 7 / 4)] \<and>
   keyBindings (deliver siteEnv ''play'' 2 (snd (create siteEnv 2 None sessionPage))) ''reset''
     = Some (9 / 5) \<and>
   speeds (settings pageState) (getBaseURL siteEnv (currentSrc pageState 2)) = None \<and>
   setSpeedCalls (mediaEventAction siteEnv 2 pageState) = [(2, 1)]"
proof -
  let ?s1 = "snd (create siteEnv 2 None sessionPage)"
  have v: "vsc sessionPage 2 = None" "listeners sessionPage 2 = []"
    by (simp_all add: sessionPage_def pageState_def)
  have a: "fst (create siteEnv 2 None sessionPage) = Return pageController"
    by (rule create_on_page) (simp_all add: sessionPage_def pageState_def)
  have l: "listeners ?s1 2 = [(''play'', 5), (''seeked'', 6)]"
    using create_listeners [OF v(1) a v(2)] by (simp add: pageController_def)
  have k: "keyBindings (initializeSpeed siteEnv 2 (addMediaElement 2 sessionPage)) ''fast'' = Some (9 / 5)"
    by (simp add: initializeSpeed_def resolveSpeed_def Let_def split_def getKeyBinding_def
          sessionPage_def pageState_def)
  have f: "\<not> rememberSpeed (settings ?s1)" "setSpeedCalls ?s1 = []"
    "keyBindings ?s1 ''fast'' = Some (9 / 5)"
    "orElse (speeds (settings ?s1) (getBaseURL siteEnv (currentSrc ?s1 2))) 1 = 7 / 4"
    using k by (simp_all add: create_frame v sessionPage_def pageState_def siteEnv_def orElse_def)
  have p: "speeds (settings pageState) (getBaseURL siteEnv (currentSrc pageState 2)) = None"
    "setSpeedCalls pageState = []"
    by (simp_all add: pageState_def)
  from mediaEventAction_remember_disabled
         [where s = ?s1 and E = siteEnv and t = 2 and ty = "''play''" and h = "(''play'', 5)"
            and ?s0.0 = pageState] f l p
  show ?thesis by simp
qed

subsection \<open>Teardown\<close>

lemma remove_changed:
  "logged (remove c s) = logged s @ [DebugRemoving, DebugRemoved]"
  "parentNode (remove c s) = (parentNode s)(divE c := None)"
  "childNodes (remove c s) =
     (case parentNode s (divE c) of
        None \<Rightarrow> childNodes s
      | Some q \<Rightarrow> (childNodes s)(q := removeAll (divE c) (childNodes s q)))"
  "listeners (remove c s) =
     (listeners s)(video c := removeAll (''seeked'', handleSeek c)
                                (removeAll (''play'', handlePlay c) (listeners s (video c))))"
  "observing (remove c s) = filter (\<lambda>q. fst q \<noteq> targetObserver c) (observing s)"
  "mediaElements (remove c s) = removeAll (video c) (mediaElements s)"
  "vsc (remove c s) = (vsc s)(video c := None)"
  by (auto simp: remove_def Let_def removeNode_def split: option.splits)

lemma remove_twice:
  "remove c (remove c s)
     = (remove c s)\<lparr>logged := logged (remove c s) @ [DebugRemoving, DebugRemoved]\<rparr>"
  by (rule state.equality) (simp_all add: remove_changed)

text \<open>
  C5. \<open>destroy\<close> on a handle without a controller (never created, or destroyed
  already) returns the state as it is. On a handle with a controller it runs
  \<open>remove\<close>, which clears the back-reference, so a second \<open>destroy\<close> changes
  nothing. \<open>remove\<close> itself, called twice on the same controller, changes nothing
  the second time but for its own two debug lines; and where the overlay has
  lost its parent already (removed by the page), \<open>remove\<close> leaves the tree
  alone. \<open>remove\<close> and \<open>destroy\<close> are total: no step of \<^verbatim>\<open>remove()\<close> throws.
\<close>

theorem destroy_idempotent:
  "(vsc s0 e0 = None \<longrightarrow> destroy e0 s0 = s0) \<and>
   (vsc s e = Some c \<and> video c = e \<longrightarrow>
      destroy e s = remove c s \<and> vsc (destroy e s) e = None \<and>
      destroy e (destroy e s) = destroy e s) \<and>
   remove c (remove c s)
     = (remove c s)\<lparr>logged := logged (remove c s) @ [DebugRemoving, DebugRemoved]\<rparr> \<and>
   (parentNode s1 (divE c) = None \<longrightarrow>
      childNodes (remove c s1) = childNodes s1 \<and> parentNode (remove c s1) = parentNode s1)"
  by (auto simp: destroy_def remove_changed remove_twice)

theorem destroy_idempotent_witness:
  "vsc pageState 2 = None \<and> destroy 2 pageState = pageState \<and>
   vsc (snd (create siteEnv 2 None pageState)) 2 = Some pageController \<and>
   video pageController = 2 \<and>
   vsc (destroy 2 (snd (create siteEnv 2 None pageState))) 2 = None \<and>
   destroy 2 (destroy 2 (snd (create siteEnv 2 None pageState)))
     = destroy 2 (snd (create siteEnv 2 None pageState)) \<and>
   parentNode (removeNode 3 (snd (create siteEnv 2 None pageState))) (divE pageController) = None \<and>
   childNodes (remove pageController (removeNode 3 (snd (create siteEnv 2 None pageState))))
     = childNodes (removeNode 3 (snd (create siteEnv 2 None pageState)))"
proof -
  let ?s1 = "snd (create siteEnv 2 None pageState)"
  have v: "vsc pageState 2 = None" by (simp add: pageState_def)
  have "fst (create siteEnv 2 None pageState) = Return pageController"
    by (rule create_on_page) (simp_all add: pageState_def)
  then have r: "create siteEnv 2 None pageState = (Return pageController, ?s1)"
    by (simp add: prod_eq_iff)
  have w: "vsc ?s1 2 = Some pageController" by (rule create_sets_vsc [OF v r])
  have d: "video pageController = 2" "divE pageController = 3" by (simp_all add: pageController_def)
  have h: "parentNode (removeNode 3 ?s1) (divE pageController) = None"
    by (simp add: d removeNode_def split: option.splits)
  from destroy_idempotent [of pageState 2 ?s1 2 pageController "removeNode 3 ?s1"] v w d(1) h
  show ?thesis by blast
qed

subsection \<open>Source mutations\<close>

lemma onMutation_class:
  "observedOn e m \<Longrightarrow>
   (''vsc-nosource'' \<in> set (classList (onMutation d m s) d)) = (src s e = [] \<and> currentSrc s e = [])"
  by (auto simp: observedOn_def onMutation_def Let_def)

lemma onMutations_frame [simp]:
  "src (onMutations d ms s) = src s"
  "currentSrc (onMutations d ms s) = currentSrc s"
  "vsc (onMutations d ms s) = vsc s"
  "listeners (onMutations d ms s) = listeners s"
  "observing (onMutations d ms s) = observing s"
  "mediaElements (onMutations d ms s) = mediaElements s"
  "childNodes (onMutations d ms s) = childNodes s"
  "parentNode (onMutations d ms s) = parentNode s"
  by (induction ms arbitrary: s; simp add: onMutations_def)+

lemma onMutations_snoc: "onMutations d (ms @ [m]) s = onMutation d m (onMutations d ms s)"
  by (simp add: onMutations_def)

text \<open>
  C9. For a controlled element and a non-empty batch of mutation records of
  its \<^verbatim>\<open>src\<close> or \<^verbatim>\<open>currentSrc\<close> attribute, after the callback of the source
  observer the wrapper carries the class \<^verbatim>\<open>vsc-nosource\<close> exactly when both the
  \<^verbatim>\<open>src\<close> and the \<^verbatim>\<open>currentSrc\<close> of the element are empty; the callback leaves
  the controller attached, with its listeners, its observer, its registry entry
  and the tree as they were.
\<close>

theorem onMutations_nosource:
  "vsc s e = Some c \<and> ms \<noteq> [] \<and> list_all (observedOn e) ms \<longrightarrow>
     (''vsc-nosource'' \<in> set (classList (onMutations (divE c) ms s) (divE c)))
        = (src s e = [] \<and> currentSrc s e = []) \<and>
     vsc (onMutations (divE c) ms s) = vsc s \<and>
     listeners (onMutations (divE c) ms s) = listeners s \<and>
     observing (onMutations (divE c) ms s) = observing s \<and>
     mediaElements (onMutations (divE c) ms s) = mediaElements s \<and>
     childNodes (onMutations (divE c) ms s) = childNodes s \<and>
     parentNode (onMutations (divE c) ms s) = parentNode s"
proof (intro impI, elim conjE)
  assume "ms \<noteq> []" and all: "list_all (observedOn e) ms"
  then obtain ms' m where ms: "ms = ms' @ [m]" by (cases ms rule: rev_cases) auto
  with all have m: "observedOn e m" by simp
  have "(''vsc-nosource'' \<in> set (classList (onMutations (divE c) ms s) (divE c)))
        = (src s e = [] \<and> currentSrc s e = [])"
    unfolding ms onMutations_snoc using onMutation_class [OF m] by simp
  then show "(''vsc-nosource'' \<in> set (classList (onMutations (divE c) ms s) (divE c)))
        = (src s e = [] \<and> currentSrc s e = []) \<and>
     vsc (onMutations (divE c) ms s) = vsc s \<and>
     listeners (onMutations (divE c) ms s) = listeners s \<and>
     observing (onMutations (divE c) ms s) = observing s \<and>
     mediaElements (onMutations (divE c) ms s) = mediaElements s \<and>
     childNodes (onMutations (divE c) ms s) = childNodes s \<and>
     parentNode (onMutations (divE c) ms s) = parentNode s"
    by simp
qed

theorem onMutations_nosource_witness:
  "vsc (snd (create siteEnv 2 None attributePage)) 2 = Some pageController \<and>
   observedOn 2 \<lparr>mtype = ''attributes'', attributeName = ''src'', mtarget = 2\<rparr> \<and>
   src (snd (create siteEnv 2 None attributePage)) 2 = ''a'' \<and>
   ''vsc-nosource'' \<notin> set (classList
      (onMutations 3 [\<lparr>mtype = ''attributes'', attributeName = ''src'', mtarget = 2\<rparr>]
         (snd (create siteEnv 2 None attributePage))) 3) \<and>
   vsc (onMutations 3 [\<lparr>mtype = ''attributes'', attributeName = ''src'', mtarget = 2\<rparr>]
          (snd (create siteEnv 2 None attributePage))) 2 = Some pageController"
proof -
  let ?s1 = "snd (create siteEnv 2 None attributePage)"
  let ?m = "\<lparr>mtype = ''attributes'', attributeName = ''src'', mtarget = 2\<rparr>"
  have v: "vsc attributePage 2 = None" "src attributePage 2 = ''a''"
    by (simp_all add: attributePage_def pageState_def)
  have "fst (create siteEnv 2 None attributePage) = Return pageController"
    by (rule create_on_page) (simp_all add: attributePage_def pageState_def)
  then have r: "create siteEnv 2 None attributePage = (Return pageController, ?s1)"
    by (simp add: prod_eq_iff)
  have w: "vsc ?s1 2 = Some pageController" by (rule create_sets_vsc [OF v(1) r])
  have o: "observedOn 2 ?m" by (simp add: observedOn_def)
  have sr: "src ?s1 2 = ''a''" using v by (simp add: create_frame)
  have d: "divE pageController = 3" by (simp add: pageController_def)
  from onMutations_nosource [of ?s1 2 pageController "[?m]"] w o sr d
  show ?thesis by simp
qed

section \<open>Properties of the media element observer\<close>

subsection \<open>Eligibility\<close>

text \<open>
  C7 as stated fails at the readiness threshold. The claim has the size check
  skipped below "metadata loaded" and applied from there on; the code skips it
  for every \<^verbatim>\<open>readyState\<close> below 2. A connected, visible video that has its
  metadata (\<^verbatim>\<open>readyState\<close> 1) in a box of 10 by 10 is accepted by
  \<open>isValidMediaElement\<close>, and rejected by the rule list of the specification
  with the threshold "metadata loaded".
\<close>

theorem isValidMediaElement_metadata_counterexample:
  "readyState (look smallLoadingVideo) = HAVE_METADATA \<and>
   rectWidth (look smallLoadingVideo) < 50 \<and>
   isConnected (look smallLoadingVideo) \<and> \<not> hidden (look smallLoadingVideo) \<and>
   \<not> shouldIgnoreVideo plainSite smallLoadingVideo \<and>
   fst (isValidMediaElement plainSite smallLoadingVideo freshObserver) \<and>
   \<not> isEligible HAVE_METADATA 50 50 plainSite smallLoadingVideo"
  by (simp add: isValidMediaElement_def isEligible_def hidden_def HAVE_METADATA_def
        smallLoadingVideo_def videoWith_def plainLook_def plainSite_def)

text \<open>
  C7, amended. \<open>isValidMediaElement\<close> is the rule list of the specification
  with the readiness threshold \<^verbatim>\<open>HAVE_CURRENT_DATA\<close> (2) and the minimum size 50
  by 50, and it stops at the first rule that fails, as its log shows: a
  disconnected element is rejected with the line for it and nothing else; a
  connected, hidden one with the line for that; below the readiness threshold
  (nothing loaded, or the metadata only) the size is not looked at, and the
  element is accepted unless the site handler ignores it; at or above the
  threshold a width or height under 50 rejects; and an element the site handler
  ignores is rejected whatever the other rules say.
\<close>

theorem isValidMediaElement_rules:
  "fst (isValidMediaElement S m st) = isEligible HAVE_CURRENT_DATA 50 50 S m \<and>
   (\<not> isConnected (look m1) \<longrightarrow>
      isValidMediaElement S m1 st = (False, obsLog DebugNotInDOM st)) \<and>
   (isConnected (look m2) \<and> hidden (look m2) \<longrightarrow>
      isValidMediaElement S m2 st = (False, obsLog DebugNotVisible st)) \<and>
   (isConnected (look m3) \<and> \<not> hidden (look m3) \<and> readyState (look m3) < HAVE_CURRENT_DATA \<longrightarrow>
      isValidMediaElement S m3 st =
        (\<not> shouldIgnoreVideo S m3,
         if shouldIgnoreVideo S m3 then obsLog DebugIgnoredLoading (obsLog DebugStillLoading st)
         else obsLog DebugStillLoading st)) \<and>
   (isConnected (look m4) \<and> \<not> hidden (look m4) \<and> HAVE_CURRENT_DATA \<le> readyState (look m4) \<and>
    (rectWidth (look m4) < 50 \<or> rectHeight (look m4) < 50) \<longrightarrow>
      isValidMediaElement S m4 st =
        (False, obsLog (DebugTooSmall (rectWidth (look m4)) (rectHeight (look m4))) st)) \<and>
   (isConnected (look m5) \<and> \<not> hidden (look m5) \<and> HAVE_CURRENT_DATA \<le> readyState (look m5) \<and>
    50 \<le> rectWidth (look m5) \<and> 50 \<le> rectHeight (look m5) \<longrightarrow>
      isValidMediaElement S m5 st =
        (\<not> shouldIgnoreVideo S m5,
         if shouldIgnoreVideo S m5 then obsLog DebugIgnored st else st)) \<and>
   (shouldIgnoreVideo S m6 \<longrightarrow> fst (isValidMediaElement S m6 st) = False)"
  by (auto simp: isValidMediaElement_def isEligible_def hidden_def Let_def HAVE_CURRENT_DATA_def)

theorem isValidMediaElement_rules_witness:
  "\<not> fst (isValidMediaElement plainSite (videoWith 2 (plainLook\<lparr>isConnected := False\<rparr>)) freshObserver) \<and>
   \<not> fst (isValidMediaElement plainSite (videoWith 2 (plainLook\<lparr>display := ''none''\<rparr>)) freshObserver) \<and>
   readyState (look smallLoadingVideo) < HAVE_CURRENT_DATA \<and>
   isValidMediaElement plainSite smallLoadingVideo freshObserver
     = (True, obsLog DebugStillLoading freshObserver) \<and>
   HAVE_CURRENT_DATA \<le> readyState (look (videoWith 2 (plainLook\<lparr>rectWidth := 10\<rparr>))) \<and>
   isValidMediaElement plainSite (videoWith 2 (plainLook\<lparr>rectWidth := 10\<rparr>)) freshObserver
     = (False, obsLog (DebugTooSmall 10 360) freshObserver) \<and>
   isValidMediaElement plainSite (videoWith 2 plainLook) freshObserver = (True, freshObserver) \<and>
   \<not> fst (isValidMediaElement plainSite (videoWith 9 plainLook) freshObserver)"
  using isValidMediaElement_rules
    [of plainSite "videoWith 2 plainLook" freshObserver
        "videoWith 2 (plainLook\<lparr>isConnected := False\<rparr>)"
        "videoWith 2 (plainLook\<lparr>display := ''none''\<rparr>)"
        smallLoadingVideo
        "videoWith 2 (plainLook\<lparr>rectWidth := 10\<rparr>)"
        "videoWith 2 plainLook"
        "videoWith 9 plainLook"]
  by (simp add: plainSite_def videoWith_def plainLook_def hidden_def smallLoadingVideo_def
        HAVE_CURRENT_DATA_def)

subsection \<open>Scanning\<close>

lemma set_newSet [simp]: "set (newSet xs) = set xs"
  by (simp add: newSet_def)

lemma distinct_newSet [simp]: "distinct (newSet xs)"
  by (simp add: newSet_def)

lemma length_newSet: "length (newSet xs) = card (set xs)"
  by (simp add: newSet_def length_remdups_card_conv)

lemma obsLog_audio [simp]: "audioBoolean (obsLog m st) = audioBoolean st"
  by (simp add: obsLog_def)

lemma observeShadowRoot_audio [simp]: "audioBoolean (observeShadowRoot r st) = audioBoolean st"
  by (simp add: observeShadowRoot_def Let_def)

lemma fold_observeShadowRoot_audio [simp]:
  "audioBoolean (fold observeShadowRoot rs st) = audioBoolean st"
  by (induction rs arbitrary: st) simp_all

lemma scanForMedia_fst: "fst (scanForMedia S d st) = mediaOf S (audioBoolean st) d"
  by (simp add: scanForMedia_def mediaOf_def traverseForShadowRootsAndMedia_def Let_def)

lemma scanForMedia_audio [simp]: "audioBoolean (snd (scanForMedia S d st)) = audioBoolean st"
  by (simp add: scanForMedia_def traverseForShadowRootsAndMedia_def Let_def)

lemma scanSelector_fold:
  "fst (fold (scanSelector S d a) sels acc) =
     fst acc @ concat (map (\<lambda>selector.
                    case querySelectorAll S d selector of
                      Inl e \<Rightarrow> []
                    | Inr containers \<Rightarrow>
                        concat (map (\<lambda>container. findMediaElements S container a) containers))
                 sels)"
  by (induction sels arbitrary: acc) (auto simp: scanSelector_def split: sum.splits)

lemma scanSelector_fold_audio:
  "audioBoolean (snd (fold (scanSelector S d a) sels acc)) = audioBoolean (snd acc)"
  by (induction sels arbitrary: acc) (auto simp: scanSelector_def split: sum.splits)

lemma scanSiteSpecificContainers_fst:
  "fst (scanSiteSpecificContainers S d st) = containerMediaOf S (audioBoolean st) d"
  by (simp add: scanSiteSpecificContainers_def containerMediaOf_def scanSelector_fold)

lemma scanSiteSpecificContainers_audio [simp]:
  "audioBoolean (snd (scanSiteSpecificContainers S d st)) = audioBoolean st"
  by (simp add: scanSiteSpecificContainers_def scanSelector_fold_audio)

lemma scanFrame_audio: "audioBoolean (snd (scanFrame S f acc)) = audioBoolean (snd acc)"
  by (simp add: scanFrame_def split_def Let_def split: sum.splits option.splits)

lemma scanFrame_fst:
  "fst (scanFrame S f acc) =
     fst acc @ (case contentDocument S f of
                  Inl e \<Rightarrow> []
                | Inr None \<Rightarrow> []
                | Inr (Some childDocument) \<Rightarrow> mediaOf S (audioBoolean (snd acc)) childDocument)"
  by (simp add: scanFrame_def split_def Let_def scanForMedia_fst split: sum.splits option.splits)

lemma scanFrame_fold:
  "audioBoolean (snd acc) = b \<Longrightarrow>
   fst (fold (scanFrame S) fs acc) =
     fst acc @ concat (map (\<lambda>frame.
                    case contentDocument S frame of
                      Inl e \<Rightarrow> []
                    | Inr None \<Rightarrow> []
                    | Inr (Some childDocument) \<Rightarrow> mediaOf S b childDocument)
                 fs)
   \<and> audioBoolean (snd (fold (scanFrame S) fs acc)) = b"
proof (induction fs arbitrary: acc)
  case Nil
  then show ?case by simp
next
  case (Cons f fs)
  have "audioBoolean (snd (scanFrame S f acc)) = b"
    using Cons.prems by (simp add: scanFrame_audio)
  from Cons.IH [OF this] Cons.prems show ?case
    by (simp add: scanFrame_fst split: sum.splits option.splits)
qed

lemma scanIframes_fst: "fst (scanIframes S d st) = frameMediaOf S (audioBoolean st) d"
  using scanFrame_fold [of "([], st)" "audioBoolean st" S "getElementsByTagName ''iframe'' d"]
  by (simp add: scanIframes_def frameMediaOf_def)

lemma scanIframes_audio [simp]: "audioBoolean (snd (scanIframes S d st)) = audioBoolean st"
  using scanFrame_fold [of "([], st)" "audioBoolean st" S "getElementsByTagName ''iframe'' d"]
  by (simp add: scanIframes_def)

lemma scanAll_fst:
  "fst (scanAll S d st) =
     newSet (mediaOf S (audioBoolean st) d @ containerMediaOf S (audioBoolean st) d
             @ frameMediaOf S (audioBoolean st) d)"
proof -
  let ?st1 = "snd (scanForMedia S d st)"
  let ?st2 = "snd (scanSiteSpecificContainers S d ?st1)"
  have "fst (scanAll S d st) =
          newSet (fst (scanForMedia S d st) @ fst (scanSiteSpecificContainers S d ?st1)
                  @ fst (scanIframes S d ?st2))"
    by (simp add: scanAll_def split_def Let_def)
  then show ?thesis
    by (simp add: scanForMedia_fst scanSiteSpecificContainers_fst scanIframes_fst)
qed

lemma scanAll_audio [simp]: "audioBoolean (snd (scanAll S d st)) = audioBoolean st"
  by (simp add: scanAll_def split_def Let_def)

subsection \<open>The traversal and the tree\<close>

lemma distinct_mset_subset:
  assumes "mset xs \<subseteq># mset ys" and "distinct ys"
  shows "distinct xs"
proof -
  have "count (mset xs) x \<le> 1" for x
  proof -
    have "count (mset xs) x \<le> count (mset ys) x"
      using assms(1) by (rule mset_subset_eq_count)
    also have "\<dots> \<le> 1"
      using assms(2) by (simp add: distinct_count_atmost_1)
    finally show ?thesis .
  qed
  then have le: "count (mset xs) x \<le> 1" for x .
  show ?thesis
    unfolding distinct_count_atmost_1
  proof (intro allI)
    fix a
    show "count (mset xs) a = (if a \<in> set xs then 1 else 0)"
    proof (cases "a \<in> set xs")
      case True
      then have "0 < count (mset xs) a" by simp
      with le [of a] have "count (mset xs) a = 1" by linarith
      with True show ?thesis by simp
    next
      case False
      then show ?thesis by simp
    qed
  qed
qed

lemma mset_concat_map_add:
  "(\<And>x. x \<in> set xs \<Longrightarrow> mset (f x) = mset (g x) + mset (h x)) \<Longrightarrow>
   mset (concat (map f xs)) = mset (concat (map g xs)) + mset (concat (map h xs))"
  by (induction xs) (simp_all add: ac_simps)

lemma skipped_traversable: "skipped n = (\<not> traversable n)"
  by (auto simp: skipped_def traversable_def ignoredNodes_def)

lemma composed_self: "e \<in> set (composed e)"
  by (cases e) simp

lemma composed_child:
  "c \<in> set (composedChildren e) \<Longrightarrow> set (composed c) \<subseteq> set (composed e)"
  by (cases e) (auto simp: composedChildren_def)

lemma composedChildren_Element:
  "composedChildren (Element i nm lnm k lk cs sr)
     = cs @ (case sr of None \<Rightarrow> [] | Some r \<Rightarrow> children r)"
  by (simp add: composedChildren_def)

lemma visited_composedChildren:
  "set (visited cs sr)
     = {c \<in> set (composedChildren (Element i nm lnm k lk cs sr)). \<not> skipped c}"
  by (auto simp: visited_def composedChildren_def skipped_traversable)

lemma mset_composed:
  "mset (composed e) = {#e#} + mset (descendants e) + mset (insideBoundaries e)"
proof (induction e rule: composed.induct)
  case (1 i nm lnm k lk cs sr)
  let ?e = "Element i nm lnm k lk cs sr"
  have kids: "mset (concat (map composed cs))
                = mset (concat (map (\<lambda>c. c # descendants c) cs))
                  + mset (concat (map insideBoundaries cs))"
  proof (rule mset_concat_map_add)
    fix x assume "x \<in> set cs"
    then have "x \<in> set (cs @ (case sr of None \<Rightarrow> [] | Some r \<Rightarrow> children r))" by simp
    from "1.IH" [OF this] show "mset (composed x) = mset (x # descendants x) + mset (insideBoundaries x)"
      by simp
  qed
  have sh: "concat (map composed (case sr of None \<Rightarrow> [] | Some r \<Rightarrow> children r))
              = (case sr of None \<Rightarrow> [] | Some r \<Rightarrow> concat (map composed (children r)))"
    by (cases sr) simp_all
  have "mset (composed ?e)
          = {#?e#} + mset (concat (map composed cs))
            + mset (concat (map composed (case sr of None \<Rightarrow> [] | Some r \<Rightarrow> children r)))"
    by simp
  also have "\<dots> = {#?e#} + mset (concat (map (\<lambda>c. c # descendants c) cs))
                   + (mset (case sr of None \<Rightarrow> [] | Some r \<Rightarrow> concat (map composed (children r)))
                      + mset (concat (map insideBoundaries cs)))"
    by (simp only: kids sh ac_simps)
  also have "\<dots> = {#?e#} + mset (descendants ?e) + mset (insideBoundaries ?e)"
    by simp
  finally show ?case .
qed

lemma set_composed:
  "set (composed e) = {e} \<union> set (descendants e) \<union> set (insideBoundaries e)"
proof -
  have "set (composed e) = set_mset (mset (composed e))" by simp
  also have "\<dots> = {e} \<union> set (descendants e) \<union> set (insideBoundaries e)"
    by (simp only: mset_composed) simp
  finally show ?thesis .
qed

lemma distinct_below:
  assumes "distinct (map nid (composed d))"
  shows "distinct (descendants d @ insideBoundaries d)"
proof -
  have d: "distinct (composed d)" using assms by (simp add: distinct_map)
  have "mset (descendants d @ insideBoundaries d) \<subseteq># mset (composed d)"
    by (simp only: mset_composed mset_append) simp
  then show ?thesis by (rule distinct_mset_subset) (rule d)
qed

lemma root_not_below:
  assumes "distinct (map nid (composed d))"
  shows "d \<notin> set (descendants d) \<union> set (insideBoundaries d)"
proof -
  have "distinct (composed d)" using assms by (simp add: distinct_map)
  then have "count (mset (composed d)) d \<le> 1"
    by (simp add: distinct_count_atmost_1)
  then have "count (mset (descendants d)) d + count (mset (insideBoundaries d)) d = 0"
    by (simp add: mset_composed)
  then show ?thesis by (simp add: count_eq_zero_iff)
qed

lemma traverse_sound:
  "x \<in> set (traverse a e) \<Longrightarrow>
   x \<in> set (composed e) \<and> nodeName x \<in> set (mediaTagNodeNames a) \<and> (x = e \<or> nodeKind x = 1)"
proof (induction a e arbitrary: x rule: traverse.induct)
  case (1 a i nm lnm k lk cs sr)
  let ?e = "Element i nm lnm k lk cs sr"
  from "1.prems" consider
      (self) "x = ?e" "nm \<in> set (mediaTagNodeNames a)"
    | (below) c where "c \<in> set (visited cs sr)" "x \<in> set (traverse a c)"
    by (auto split: if_splits)
  then show ?case
  proof cases
    case self
    then show ?thesis by simp
  next
    case below
    from "1.IH" [OF below] have ih: "x \<in> set (composed c)"
      "nodeName x \<in> set (mediaTagNodeNames a)" "x = c \<or> nodeKind x = 1"
      by simp_all
    from below(1) have c: "c \<in> set (composedChildren ?e)" "traversable c"
      by (auto simp: visited_def composedChildren_def)
    from c(2) ih(3) have "nodeKind x = 1" by (auto simp: traversable_def)
    moreover from composed_child [OF c(1)] ih(1) have "x \<in> set (composed ?e)" by blast
    ultimately show ?thesis using ih(2) by simp
  qed
qed

lemma traverse_complete:
  assumes "\<forall>p\<in>set (composed e).
             ((nodeName p \<in> set (mediaTagNodeNames a)) = (localName p \<in> set (mediaTagSelector a)))
             \<and> (\<forall>c\<in>set (composedChildren p). skipped c \<longrightarrow> mediaFree a c)"
    and "x \<in> set (composed e)" and "mediaElement a x"
  shows "x \<in> set (traverse a e)"
  using assms
proof (induction e rule: composed.induct)
  case (1 i nm lnm k lk cs sr)
  let ?e = "Element i nm lnm k lk cs sr"
  let ?kids = "cs @ (case sr of None \<Rightarrow> [] | Some r \<Rightarrow> children r)"
  from "1.prems"(2) consider (self) "x = ?e" | (below) c where "c \<in> set ?kids" "x \<in> set (composed c)"
    by auto
  then show ?case
  proof cases
    case self
    from "1.prems"(3) self have "lnm \<in> set (mediaTagSelector a)"
      by (simp add: mediaElement_def mediaTagSelector_def)
    moreover from "1.prems"(1) composed_self [of ?e]
    have "(nm \<in> set (mediaTagNodeNames a)) = (lnm \<in> set (mediaTagSelector a))"
      by fastforce
    ultimately show ?thesis using self by simp
  next
    case below
    from below(1) have c: "c \<in> set (composedChildren ?e)"
      by (simp add: composedChildren_def)
    have "\<not> skipped c"
    proof
      assume "skipped c"
      with "1.prems"(1) composed_self [of ?e] c have "mediaFree a c" by blast
      with below(2) "1.prems"(3) show False by (auto simp: mediaFree_def list_all_iff)
    qed
    with c have v: "c \<in> set (visited cs sr)"
      by (simp add: visited_composedChildren [of cs sr i nm lnm k lk])
    have "\<forall>p\<in>set (composed c).
             ((nodeName p \<in> set (mediaTagNodeNames a)) = (localName p \<in> set (mediaTagSelector a)))
             \<and> (\<forall>c\<in>set (composedChildren p). skipped c \<longrightarrow> mediaFree a c)"
      using "1.prems"(1) composed_child [OF c] by blast
    from "1.IH" [OF below(1) this below(2) "1.prems"(3)] have "x \<in> set (traverse a c)" .
    with v show ?thesis by auto
  qed
qed

lemma scanned_set:
  assumes "distinct (map nid (composed d))" and "nodeName d = ''#document''"
    and "htmlNamed a d" and "skipsNoMedia a d"
  shows "set (querySelectorAllTypes (mediaTagSelector a) d) \<union> set (traverse a d)
           = {x \<in> set (descendants d @ insideBoundaries d). mediaElement a x}"
proof -
  have names: "\<forall>p\<in>set (composed d).
      (nodeName p \<in> set (mediaTagNodeNames a)) = (localName p \<in> set (mediaTagSelector a))"
    using assms(3) by (simp add: htmlNamed_def list_all_iff mediaTagNodeNames_def mediaTagSelector_def)
  have skips: "\<forall>p\<in>set (composed d). \<forall>c\<in>set (composedChildren p). skipped c \<longrightarrow> mediaFree a c"
    using assms(4) by (simp add: skipsNoMedia_def list_all_iff)
  have q: "set (querySelectorAllTypes (mediaTagSelector a) d)
             = {x \<in> set (descendants d). mediaElement a x}"
    by (auto simp: querySelectorAllTypes_def mediaElement_def mediaTagSelector_def)
  have root: "nodeName d \<notin> set (mediaTagNodeNames a)"
    using assms(2) by (simp add: mediaTagNodeNames_def)
  have t1: "x \<in> set (descendants d) \<union> set (insideBoundaries d) \<and> mediaElement a x"
    if "x \<in> set (traverse a d)" for x
  proof -
    from traverse_sound [OF that] have s: "x \<in> set (composed d)"
      "nodeName x \<in> set (mediaTagNodeNames a)" "x = d \<or> nodeKind x = 1"
      by simp_all
    from s(2) root have "x \<noteq> d" by auto
    with s(1) have "x \<in> set (descendants d) \<union> set (insideBoundaries d)"
      by (simp add: set_composed)
    moreover from s(3) \<open>x \<noteq> d\<close> have "nodeKind x = 1" by simp
    moreover from names s(1) s(2) have "localName x \<in> set (mediaTagSelector a)" by blast
    ultimately show ?thesis by (simp add: mediaElement_def mediaTagSelector_def)
  qed
  have t2: "x \<in> set (traverse a d)" if "x \<in> set (insideBoundaries d)" "mediaElement a x" for x
  proof (rule traverse_complete)
    show "\<forall>p\<in>set (composed d).
             ((nodeName p \<in> set (mediaTagNodeNames a)) = (localName p \<in> set (mediaTagSelector a)))
             \<and> (\<forall>c\<in>set (composedChildren p). skipped c \<longrightarrow> mediaFree a c)"
      using names skips by blast
    show "x \<in> set (composed d)" using that(1) by (simp add: set_composed)
    show "mediaElement a x" by (rule that(2))
  qed
  show ?thesis using q t1 t2 by auto
qed

subsection \<open>The comprehensive scan\<close>

lemma count_of_scan:
  assumes "distinct (map nid (composed d))" and "nodeName d = ''#document''"
    and "htmlNamed a d" and "skipsNoMedia a d"
  shows "length (newSet (filter P (newSet (querySelectorAllTypes (mediaTagSelector a) d @ traverse a d)))) =
           length (filter (\<lambda>m. mediaElement a m \<and> P m) (descendants d))
           + length (filter (\<lambda>m. mediaElement a m \<and> P m) (insideBoundaries d))"
proof -
  let ?Q = "querySelectorAllTypes (mediaTagSelector a) d"
  let ?B = "descendants d @ insideBoundaries d"
  have "set (filter P (newSet (?Q @ traverse a d)))
          = set (filter (\<lambda>m. mediaElement a m \<and> P m) ?B)"
    using scanned_set [OF assms] by auto
  then have "length (newSet (filter P (newSet (?Q @ traverse a d))))
               = card (set (filter (\<lambda>m. mediaElement a m \<and> P m) ?B))"
    by (simp only: length_newSet)
  also have "\<dots> = length (filter (\<lambda>m. mediaElement a m \<and> P m) ?B)"
    using distinct_below [OF assms(1)] by (intro distinct_card distinct_filter)
  finally show ?thesis by simp
qed

text \<open>
  C8 as stated fails where it counts eligible elements: \<open>scanAll\<close> runs no
  eligibility check. The document whose only video is not displayed has no
  eligible element, at top level or inside a boundary, and \<open>scanAll\<close> returns
  one handle. It fails too where the traversal does not descend: the video
  inside the shadow root of a host under a style element is eligible and inside
  a shadow boundary, and \<open>scanAll\<close> returns nothing.
\<close>

theorem scanAll_eligible_count_counterexample:
  "fst (scanAll plainSite hiddenVideoDocument freshObserver)
     = [videoWith 2 (plainLook\<lparr>display := ''none''\<rparr>)] \<and>
   filter (\<lambda>m. mediaElement (audioBoolean freshObserver) m
                \<and> fst (isValidMediaElement plainSite m freshObserver))
     (descendants hiddenVideoDocument) = [] \<and>
   filter (\<lambda>m. mediaElement (audioBoolean freshObserver) m
                \<and> fst (isValidMediaElement plainSite m freshObserver))
     (insideBoundaries hiddenVideoDocument) = [] \<and>
   fst (scanAll plainSite styleHostDocument freshObserver) = [] \<and>
   filter (\<lambda>m. mediaElement (audioBoolean freshObserver) m
                \<and> fst (isValidMediaElement plainSite m freshObserver))
     (descendants styleHostDocument) = [] \<and>
   filter (\<lambda>m. mediaElement (audioBoolean freshObserver) m
                \<and> fst (isValidMediaElement plainSite m freshObserver))
     (insideBoundaries styleHostDocument) = [videoWith 5 plainLook]"
proof -
  have q: "querySelectorAllTypes (mediaTagSelector False) hiddenVideoDocument
             = [videoWith 2 (plainLook\<lparr>display := ''none''\<rparr>)]"
    by (simp add: querySelectorAllTypes_def mediaTagSelector_def hiddenVideoDocument_def
          videoWith_def)
  have t: "traverse False hiddenVideoDocument = [videoWith 2 (plainLook\<lparr>display := ''none''\<rparr>)]"
    by (simp add: hiddenVideoDocument_def videoWith_def mediaTagNodeNames_def visited_def
          traversable_def ignoredNodes_def)
  have f: "getElementsByTagName ''iframe'' hiddenVideoDocument = []"
    by (simp add: getElementsByTagName_def hiddenVideoDocument_def videoWith_def)
  have v: "\<not> fst (isValidMediaElement plainSite (videoWith 2 (plainLook\<lparr>display := ''none''\<rparr>))
                   freshObserver)"
    by (simp add: isValidMediaElement_def videoWith_def plainLook_def)
  have s: "fst (scanAll plainSite hiddenVideoDocument freshObserver)
             = [videoWith 2 (plainLook\<lparr>display := ''none''\<rparr>)]"
    by (simp add: scanAll_fst mediaOf_def containerMediaOf_def frameMediaOf_def q t f
          freshObserver_def plainSite_def newSet_def videoWith_def)
  have n: "filter (\<lambda>m. mediaElement False m \<and> fst (isValidMediaElement plainSite m freshObserver))
             (descendants hiddenVideoDocument) = []"
    using v by (simp add: hiddenVideoDocument_def mediaElement_def videoWith_def)
  have m: "insideBoundaries hiddenVideoDocument = []"
    by (simp add: hiddenVideoDocument_def videoWith_def)
  have q': "querySelectorAllTypes (mediaTagSelector False) styleHostDocument = []"
    by (simp add: querySelectorAllTypes_def mediaTagSelector_def styleHostDocument_def
          videoWith_def)
  have t': "traverse False styleHostDocument = []"
    by (simp add: styleHostDocument_def videoWith_def mediaTagNodeNames_def visited_def
          traversable_def ignoredNodes_def)
  have f': "getElementsByTagName ''iframe'' styleHostDocument = []"
    by (simp add: getElementsByTagName_def styleHostDocument_def videoWith_def)
  have s': "fst (scanAll plainSite styleHostDocument freshObserver) = []"
    by (simp add: scanAll_fst mediaOf_def containerMediaOf_def frameMediaOf_def q' t' f'
          freshObserver_def plainSite_def newSet_def)
  have v': "fst (isValidMediaElement plainSite (videoWith 5 plainLook) freshObserver)"
    by (simp add: isValidMediaElement_def videoWith_def plainLook_def plainSite_def)
  have n': "filter (\<lambda>m. mediaElement False m \<and> fst (isValidMediaElement plainSite m freshObserver))
             (descendants styleHostDocument) = []"
    by (simp add: styleHostDocument_def mediaElement_def videoWith_def)
  have i': "insideBoundaries styleHostDocument = [videoWith 5 plainLook]"
    by (simp add: styleHostDocument_def videoWith_def)
  have m': "filter (\<lambda>m. mediaElement False m \<and> fst (isValidMediaElement plainSite m freshObserver))
             (insideBoundaries styleHostDocument) = [videoWith 5 plainLook]"
    using v' by (simp add: i') (simp add: mediaElement_def videoWith_def)
  show ?thesis using s n m s' n' m' by (simp add: freshObserver_def)
qed

text \<open>
  C8, amended. \<open>scanAll\<close> returns, without duplicates, the union of the document
  scan, the container-selector scan and the frame scan; a second run on the
  same document returns the same list. It applies no visibility, size or
  readiness check: the only filter is the site handler's, and only on the
  document scan. So for a document whose nodes have distinct identities and
  are named as HTML names them, with no media element below a node of a
  skipped kind, no frames and no site-specific additions, it returns exactly
  N + M handles: N the media elements among the descendants of the document
  that the site handler does not ignore, and M those inside shadow boundaries.
\<close>

theorem scanAll_dedup_union:
  "distinct (fst (scanAll S d st)) \<and>
   set (fst (scanAll S d st)) =
     set (fst (scanForMedia S d st)) \<union> set (fst (scanSiteSpecificContainers S d st))
     \<union> set (fst (scanIframes S d st)) \<and>
   fst (scanAll S d (snd (scanAll S d st))) = fst (scanAll S d st) \<and>
   (distinct (map nid (composed d)) \<and> nodeName d = ''#document'' \<and>
    htmlNamed (audioBoolean st) d \<and> skipsNoMedia (audioBoolean st) d \<and>
    detectSpecialVideos S d = [] \<and> getVideoContainerSelectors S = [] \<and>
    getElementsByTagName ''iframe'' d = [] \<longrightarrow>
      length (fst (scanAll S d st)) =
        length (filter (\<lambda>m. mediaElement (audioBoolean st) m \<and> \<not> shouldIgnoreVideo S m)
                  (descendants d))
        + length (filter (\<lambda>m. mediaElement (audioBoolean st) m \<and> \<not> shouldIgnoreVideo S m)
                  (insideBoundaries d)))"
proof (intro conjI impI)
  show "distinct (fst (scanAll S d st))" by (simp add: scanAll_fst)
  show "set (fst (scanAll S d st)) =
     set (fst (scanForMedia S d st)) \<union> set (fst (scanSiteSpecificContainers S d st))
     \<union> set (fst (scanIframes S d st))"
    by (simp add: scanAll_fst scanForMedia_fst scanSiteSpecificContainers_fst scanIframes_fst
          Un_assoc)
  show "fst (scanAll S d (snd (scanAll S d st))) = fst (scanAll S d st)"
    by (simp add: scanAll_fst)
next
  assume h: "distinct (map nid (composed d)) \<and> nodeName d = ''#document'' \<and>
    htmlNamed (audioBoolean st) d \<and> skipsNoMedia (audioBoolean st) d \<and>
    detectSpecialVideos S d = [] \<and> getVideoContainerSelectors S = [] \<and>
    getElementsByTagName ''iframe'' d = []"
  then have "fst (scanAll S d st) =
               newSet (filter (\<lambda>m. \<not> shouldIgnoreVideo S m)
                 (newSet (querySelectorAllTypes (mediaTagSelector (audioBoolean st)) d
                          @ traverse (audioBoolean st) d)))"
    by (simp add: scanAll_fst mediaOf_def containerMediaOf_def frameMediaOf_def)
  moreover from h have "length (newSet (filter (\<lambda>m. \<not> shouldIgnoreVideo S m)
                 (newSet (querySelectorAllTypes (mediaTagSelector (audioBoolean st)) d
                          @ traverse (audioBoolean st) d)))) =
        length (filter (\<lambda>m. mediaElement (audioBoolean st) m \<and> \<not> shouldIgnoreVideo S m)
                  (descendants d))
        + length (filter (\<lambda>m. mediaElement (audioBoolean st) m \<and> \<not> shouldIgnoreVideo S m)
                  (insideBoundaries d))"
    by (intro count_of_scan) simp_all
  ultimately show "length (fst (scanAll S d st)) =
        length (filter (\<lambda>m. mediaElement (audioBoolean st) m \<and> \<not> shouldIgnoreVideo S m)
                  (descendants d))
        + length (filter (\<lambda>m. mediaElement (audioBoolean st) m \<and> \<not> shouldIgnoreVideo S m)
                  (insideBoundaries d))"
    by simp
qed

theorem scanAll_dedup_union_witness:
  "distinct (map nid (composed shadowDocument)) \<and>
   htmlNamed (audioBoolean freshObserver) shadowDocument \<and>
   skipsNoMedia (audioBoolean freshObserver) shadowDocument \<and>
   filter (\<lambda>m. mediaElement (audioBoolean freshObserver) m \<and> \<not> shouldIgnoreVideo plainSite m)
     (descendants shadowDocument) = [videoWith 2 plainLook] \<and>
   filter (\<lambda>m. mediaElement (audioBoolean freshObserver) m \<and> \<not> shouldIgnoreVideo plainSite m)
     (insideBoundaries shadowDocument) = [videoWith 5 plainLook] \<and>
   length (fst (scanAll plainSite shadowDocument freshObserver)) = 2 \<and>
   distinct (fst (scanAll plainSite shadowDocument freshObserver)) \<and>
   fst (scanAll plainSite shadowDocument (snd (scanAll plainSite shadowDocument freshObserver)))
     = fst (scanAll plainSite shadowDocument freshObserver)"
proof -
  have c: "composed shadowDocument =
     [shadowDocument,
      Element 1 ''BODY'' ''body'' 1 plainLook
          [videoWith 2 plainLook,
           Element 3 ''DIV'' ''div'' 1 plainLook []
             (Some (Element 4 ''#document-fragment'' [] 11 plainLook [videoWith 5 plainLook] None)),
           Element 6 ''#text'' [] 3 plainLook [] None]
          None,
      videoWith 2 plainLook,
      Element 3 ''DIV'' ''div'' 1 plainLook []
             (Some (Element 4 ''#document-fragment'' [] 11 plainLook [videoWith 5 plainLook] None)),
      videoWith 5 plainLook,
      Element 6 ''#text'' [] 3 plainLook [] None]"
    by (simp add: shadowDocument_def videoWith_def)
  have a: "distinct (map nid (composed shadowDocument))"
    unfolding c by (simp add: shadowDocument_def videoWith_def)
  have r: "nodeName shadowDocument = ''#document''"
    by (simp add: shadowDocument_def)
  have hn: "htmlNamed False shadowDocument"
    unfolding htmlNamed_def c by (simp add: shadowDocument_def videoWith_def)
  have sk: "skipsNoMedia False shadowDocument"
    unfolding skipsNoMedia_def c
    by (simp add: shadowDocument_def videoWith_def composedChildren_def skipped_def
          mediaFree_def mediaElement_def)
  have n: "filter (\<lambda>m. mediaElement False m \<and> \<not> shouldIgnoreVideo plainSite m)
             (descendants shadowDocument) = [videoWith 2 plainLook]"
    by (simp add: shadowDocument_def videoWith_def mediaElement_def plainSite_def)
  have i: "insideBoundaries shadowDocument = [videoWith 5 plainLook]"
    by (simp add: shadowDocument_def videoWith_def)
  have m: "filter (\<lambda>m. mediaElement False m \<and> \<not> shouldIgnoreVideo plainSite m)
             (insideBoundaries shadowDocument) = [videoWith 5 plainLook]"
    unfolding i by (simp add: videoWith_def mediaElement_def plainSite_def)
  have f: "getElementsByTagName ''iframe'' shadowDocument = []"
    by (simp add: getElementsByTagName_def shadowDocument_def videoWith_def)
  have p: "detectSpecialVideos plainSite shadowDocument = []" "getVideoContainerSelectors plainSite = []"
    by (simp_all add: plainSite_def)
  have b: "audioBoolean freshObserver = False" by (simp add: freshObserver_def)
  from scanAll_dedup_union [of plainSite shadowDocument freshObserver] a r hn sk n m f p b
  show ?thesis by simp
qed

end
